theory Spec2Isabelle
  imports Complex_Main
begin

section \<open>JavaScript values\<close>

text \<open>
  The AI service (\<^verbatim>\<open>services/ai.service.js\<close>, the richer of the two versions in the
  repository) is embedded function by function. Its inputs are what \<^verbatim>\<open>JSON.parse\<close> returns,
  so the model works on JavaScript values. An exception is a value \<open>Inl e\<close> of a sum type.

  Two idealisations are made throughout and nowhere else:
  \<^item> a string is a list of 8-bit characters, read as the code units U+0000 to U+00FF;
    text with code units above U+00FF is outside the model;
  \<^item> a finite number is the exact rational that its decimal text denotes; the rounding of
    IEEE doubles (and so overflow to Infinity and underflow to zero of a decimal text) is
    not modelled. \<open>NaN\<close>, \<open>Infinity\<close> and \<open>-Infinity\<close> are values of their own.
\<close>

datatype js_error = TypeError | SyntaxError | Error string | AppError string nat

datatype jsnum = NaN | PInf | NInf | Fin rat

datatype jsval =
    JUndefined
  | JNull
  | JBool bool
  | JNum jsnum
  | JStr string
  | JArr "jsval list"
  | JObj "(string \<times> jsval) list"

text \<open>
  \<open>JObj kvs\<close> is the plain object whose own properties are \<open>map_of kvs\<close>, in the order of
  \<open>kvs\<close>. Truthiness is JavaScript's \<^verbatim>\<open>ToBoolean\<close>; \<open>orElse a b\<close> is \<^verbatim>\<open>a || b\<close>.
\<close>

fun truthy :: "jsval \<Rightarrow> bool" where
  "truthy JUndefined = False"
| "truthy JNull = False"
| "truthy (JBool b) = b"
| "truthy (JNum n) = (n \<noteq> NaN \<and> n \<noteq> Fin 0)"
| "truthy (JStr s) = (s \<noteq> [])"
| "truthy (JArr xs) = True"
| "truthy (JObj kvs) = True"

definition orElse :: "jsval \<Rightarrow> jsval \<Rightarrow> jsval" where
  "orElse a b = (if truthy a then a else b)"

definition nullish :: "jsval \<Rightarrow> bool" where
  "nullish v = (v = JUndefined \<or> v = JNull)"

text \<open>
  \<open>getProp v k\<close> is the read \<^verbatim>\<open>v.k\<close> on a value that is neither \<^verbatim>\<open>undefined\<close> nor
  \<^verbatim>\<open>null\<close>. None of the property names the service reads (\<^verbatim>\<open>seoTitle\<close>,
  \<^verbatim>\<open>specifications\<close>, \<^verbatim>\<open>min\<close>, ...) is defined on the prototype of objects, arrays,
  strings, numbers or booleans, so the read finds an own property of a plain object or
  nothing. \<open>optProp v k\<close> is the optional chain \<^verbatim>\<open>v?.k\<close>.
\<close>

definition getProp :: "jsval \<Rightarrow> string \<Rightarrow> jsval" where
  "getProp v k =
     (case v of
        JObj kvs \<Rightarrow> (case map_of kvs k of None \<Rightarrow> JUndefined | Some x \<Rightarrow> x)
      | _ \<Rightarrow> JUndefined)"

definition optProp :: "jsval \<Rightarrow> string \<Rightarrow> jsval" where
  "optProp v k = (if nullish v then JUndefined else getProp v k)"

definition isArray :: "jsval \<Rightarrow> bool" where
  "isArray v = (case v of JArr xs \<Rightarrow> True | _ \<Rightarrow> False)"

text \<open>\<^verbatim>\<open>Array.isArray(v) ? v : []\<close>, as the list of the elements.\<close>

definition arrayOrEmpty :: "jsval \<Rightarrow> jsval list" where
  "arrayOrEmpty v = (case v of JArr xs \<Rightarrow> xs | _ \<Rightarrow> [])"

section \<open>Strings\<close>

text \<open>
  \<^verbatim>\<open>String.prototype.toLowerCase\<close> on the code units below U+0100: the ASCII capitals and
  the Latin-1 capitals U+00C0 to U+00DE (without the multiplication sign U+00D7) move to
  their small letters, every other code unit stays.
\<close>

definition upperChars :: string where
  "upperChars = ''ABCDEFGHIJKLMNOPQRSTUVWXYZ'' @
     [CHR 0xC0, CHR 0xC1, CHR 0xC2, CHR 0xC3, CHR 0xC4, CHR 0xC5, CHR 0xC6, CHR 0xC7,
      CHR 0xC8, CHR 0xC9, CHR 0xCA, CHR 0xCB, CHR 0xCC, CHR 0xCD, CHR 0xCE, CHR 0xCF,
      CHR 0xD0, CHR 0xD1, CHR 0xD2, CHR 0xD3, CHR 0xD4, CHR 0xD5, CHR 0xD6,
      CHR 0xD8, CHR 0xD9, CHR 0xDA, CHR 0xDB, CHR 0xDC, CHR 0xDD, CHR 0xDE]"

definition lowerChars :: string where
  "lowerChars = ''abcdefghijklmnopqrstuvwxyz'' @
     [CHR 0xE0, CHR 0xE1, CHR 0xE2, CHR 0xE3, CHR 0xE4, CHR 0xE5, CHR 0xE6, CHR 0xE7,
      CHR 0xE8, CHR 0xE9, CHR 0xEA, CHR 0xEB, CHR 0xEC, CHR 0xED, CHR 0xEE, CHR 0xEF,
      CHR 0xF0, CHR 0xF1, CHR 0xF2, CHR 0xF3, CHR 0xF4, CHR 0xF5, CHR 0xF6,
      CHR 0xF8, CHR 0xF9, CHR 0xFA, CHR 0xFB, CHR 0xFC, CHR 0xFD, CHR 0xFE]"

definition toLowerChar :: "char \<Rightarrow> char" where
  "toLowerChar c = (case map_of (zip upperChars lowerChars) c of None \<Rightarrow> c | Some l \<Rightarrow> l)"

definition toLowerCase :: "string \<Rightarrow> string" where
  "toLowerCase s = map toLowerChar s"

text \<open>\<^verbatim>\<open>s.replace(/[^a-z-]/g, '')\<close>: only the small ASCII letters and the hyphen stay.\<close>

definition stripNonCondition :: "string \<Rightarrow> string" where
  "stripNonCondition s = filter (\<lambda>c. c \<in> set ''abcdefghijklmnopqrstuvwxyz-'') s"

fun startsWith :: "string \<Rightarrow> string \<Rightarrow> bool" where
  "startsWith s [] = True"
| "startsWith [] (k # ks) = False"
| "startsWith (c # cs) (k # ks) = (c = k \<and> startsWith cs ks)"

text \<open>\<^verbatim>\<open>s.includes(key)\<close>: \<open>key\<close> occurs in \<open>s\<close> as a contiguous substring.\<close>

fun includesStr :: "string \<Rightarrow> string \<Rightarrow> bool" where
  "includesStr [] key = (key = [])"
| "includesStr (c # cs) key = (startsWith (c # cs) key \<or> includesStr cs key)"

section \<open>The condition normalizer\<close>

text \<open>
  \<^verbatim>\<open>
  validateCondition(condition) {
    const validConditions = ['new', 'like-new', 'excellent', 'good', 'fair', 'poor', 'for-parts'];
    const normalized = condition?.toLowerCase().replace(/[^a-z-]/g, '');
    if (validConditions.includes(normalized)) { return normalized; }
    const conditionMap = { 'brand new': 'new', 'mint': 'like-new', 'very good': 'excellent',
      'used': 'good', 'acceptable': 'fair', 'damaged': 'poor', 'broken': 'for-parts' };
    for (const [key, value] of Object.entries(conditionMap)) {
      if (normalized?.includes(key)) { return value; }
    }
    return 'good'; // Default condition
  }
  \<close>
\<close>

definition validConditions :: "string list" where
  "validConditions =
     [''new'', ''like-new'', ''excellent'', ''good'', ''fair'', ''poor'', ''for-parts'']"

definition conditionMap :: "(string \<times> string) list" where
  "conditionMap =
     [(''brand new'', ''new''), (''mint'', ''like-new''), (''very good'', ''excellent''),
      (''used'', ''good''), (''acceptable'', ''fair''), (''damaged'', ''poor''),
      (''broken'', ''for-parts'')]"

text \<open>
  \<open>normalizeCondition\<close> is the second line of the method. The optional chain stops at
  \<^verbatim>\<open>undefined\<close> and \<^verbatim>\<open>null\<close> (\<open>normalized\<close> is then \<^verbatim>\<open>undefined\<close>, here \<open>None\<close>); any
  other value that is not a string has no callable \<^verbatim>\<open>toLowerCase\<close>, and the call throws.
\<close>

definition normalizeCondition :: "jsval \<Rightarrow> js_error + string option" where
  "normalizeCondition condition =
     (case condition of
        JUndefined \<Rightarrow> Inr None
      | JNull \<Rightarrow> Inr None
      | JStr s \<Rightarrow> Inr (Some (stripNonCondition (toLowerCase s)))
      | _ \<Rightarrow> Inl TypeError)"

text \<open>The \<^verbatim>\<open>for ... of\<close> loop over the entries of the table, and the default after it.\<close>

fun mapVariations :: "(string \<times> string) list \<Rightarrow> string option \<Rightarrow> string" where
  "mapVariations [] normalized = ''good''"
| "mapVariations ((key, v) # rest) normalized =
     (if (case normalized of None \<Rightarrow> False | Some n \<Rightarrow> includesStr n key) then v
      else mapVariations rest normalized)"

definition validateCondition :: "jsval \<Rightarrow> js_error + string" where
  "validateCondition condition =
     (case normalizeCondition condition of
        Inl e \<Rightarrow> Inl e
      | Inr normalized \<Rightarrow>
          (case normalized of
             None \<Rightarrow> Inr (mapVariations conditionMap normalized)
           | Some n \<Rightarrow>
               if n \<in> set validConditions then Inr n
               else Inr (mapVariations conditionMap normalized)))"

section \<open>Numeric coercion\<close>

definition isDigit :: "char \<Rightarrow> bool" where
  "isDigit c = (c \<in> set ''0123456789'')"

definition digitVal :: "char \<Rightarrow> nat" where
  "digitVal c = of_char c - 48"

definition digitsVal :: "string \<Rightarrow> nat" where
  "digitsVal ds = foldl (\<lambda>a c. 10 * a + digitVal c) 0 ds"

definition scale10 :: "rat \<Rightarrow> bool \<Rightarrow> nat \<Rightarrow> rat" where
  "scale10 m neg e = (if neg then m / 10 ^ e else m * 10 ^ e)"

text \<open>
  An exponent part \<^verbatim>\<open>[eE][+-]?[0-9]+\<close> at the head of \<open>s\<close>: its sign, its magnitude and
  the text after it. Where there is none, the text is returned as it came.
\<close>

definition lexExponent :: "string \<Rightarrow> bool \<times> nat \<times> string" where
  "lexExponent s =
     (case s of
        [] \<Rightarrow> (False, 0, s)
      | e # s1 \<Rightarrow>
          if e = CHR ''e'' \<or> e = CHR ''E'' then
            (let neg = (s1 \<noteq> [] \<and> hd s1 = CHR ''-'');
                 s2 = (if s1 \<noteq> [] \<and> (hd s1 = CHR ''-'' \<or> hd s1 = CHR ''+'') then tl s1 else s1);
                 ds = takeWhile isDigit s2
             in if ds = [] then (False, 0, s) else (neg, digitsVal ds, dropWhile isDigit s2))
          else (False, 0, s))"

text \<open>The white space and line terminators below U+0100 that \<^verbatim>\<open>parseFloat\<close> skips.\<close>

definition isStrWhiteSpace :: "char \<Rightarrow> bool" where
  "isStrWhiteSpace c =
     (c \<in> set [CHR 0x09, CHR 0x0A, CHR 0x0B, CHR 0x0C, CHR 0x0D, CHR 0x20, CHR 0xA0])"

text \<open>
  \<^verbatim>\<open>parseFloat\<close> on a string: leading white space is dropped, and the longest prefix that
  is a \<^verbatim>\<open>StrDecimalLiteral\<close> (a sign, then \<^verbatim>\<open>Infinity\<close> or digits with an optional
  fraction and exponent) is the value; without such a prefix the result is \<open>NaN\<close>.
\<close>

definition parseFloatStr :: "string \<Rightarrow> jsnum" where
  "parseFloatStr s =
     (let t = dropWhile isStrWhiteSpace s;
          neg = (t \<noteq> [] \<and> hd t = CHR ''-'');
          u = (if t \<noteq> [] \<and> (hd t = CHR ''-'' \<or> hd t = CHR ''+'') then tl t else t)
      in if startsWith u ''Infinity'' then (if neg then NInf else PInf)
         else
          (let ip = takeWhile isDigit u;
               r1 = dropWhile isDigit u;
               hasDot = (r1 \<noteq> [] \<and> hd r1 = CHR ''.'');
               fp = (if hasDot then takeWhile isDigit (tl r1) else []);
               r2 = (if hasDot then dropWhile isDigit (tl r1) else r1)
           in if ip = [] \<and> fp = [] then NaN
              else
               (case lexExponent r2 of
                  (eneg, e, r3) \<Rightarrow>
                    Fin ((if neg then - 1 else 1) *
                         scale10 (of_nat (digitsVal (ip @ fp)) / 10 ^ length fp) eneg e))))"

text \<open>
  \<^verbatim>\<open>parseFloat(v)\<close> first turns \<open>v\<close> into a string. \<^verbatim>\<open>ToString\<close> of a plain object with
  an own property \<^verbatim>\<open>toString\<close> throws a TypeError: the property is a JSON value, so not
  callable, and \<^verbatim>\<open>valueOf\<close> gives no primitive. An array is joined from the strings of its
  elements, so it throws where one of them does.
\<close>

fun toStringThrows :: "jsval \<Rightarrow> bool" where
  "toStringThrows (JObj kvs) = (map_of kvs ''toString'' \<noteq> None)"
| "toStringThrows (JArr xs) = (\<exists>x \<in> set xs. toStringThrows x)"
| "toStringThrows v = False"

text \<open>
  The number that \<^verbatim>\<open>parseFloat\<close> reads from the string of a value. A number prints as a
  text that reads back as the same number. \<^verbatim>\<open>undefined\<close>, \<^verbatim>\<open>null\<close>, booleans and plain
  objects print as \<^verbatim>\<open>undefined\<close>, \<^verbatim>\<open>null\<close>, \<^verbatim>\<open>true\<close>, \<^verbatim>\<open>false\<close> and
  \<^verbatim>\<open>[object Object]\<close>, which start no number. An array prints as its elements joined
  by commas, \<^verbatim>\<open>null\<close> printing as the empty string; a comma ends every number, so the
  first element alone decides.
\<close>

fun parseFloatOf :: "jsval \<Rightarrow> jsnum" where
  "parseFloatOf (JNum n) = n"
| "parseFloatOf (JStr s) = parseFloatStr s"
| "parseFloatOf (JArr []) = NaN"
| "parseFloatOf (JArr (x # xs)) = (if nullish x then NaN else parseFloatOf x)"
| "parseFloatOf v = NaN"

definition parseFloat :: "jsval \<Rightarrow> js_error + jsnum" where
  "parseFloat v = (if toStringThrows v then Inl TypeError else Inr (parseFloatOf v))"

text \<open>\<^verbatim>\<open>n || d\<close> on numbers: \<open>NaN\<close> and zero are falsy.\<close>

definition numOr :: "jsnum \<Rightarrow> jsnum \<Rightarrow> jsnum" where
  "numOr n d = (if n = NaN \<or> n = Fin 0 then d else n)"

section \<open>The listing record\<close>

text \<open>
  The object that \<^verbatim>\<open>parseAIResponse\<close> returns. A field that the code copies from the
  decoded JSON keeps whatever value came (\<open>jsval\<close>); a field that the code computes has
  the type of what it computes. \<open>specifications\<close> is an object of twenty-one keys on the
  structured path and the empty object on the fallback path. The key \<^verbatim>\<open>error\<close> exists only
  on the fallback object. \<open>price_min\<close> and \<open>price_max\<close> are the keys \<^verbatim>\<open>min\<close> and
  \<^verbatim>\<open>max\<close>.
\<close>

record SeoKeywords =
  primary :: "jsval list"
  secondary :: "jsval list"
  longTail :: "jsval list"

record MarketplaceContent =
  seoTitle :: jsval
  keyFeatures :: "jsval list"
  productDescription :: jsval
  shortMarketplaceSummary :: jsval
  longSeoDescription :: jsval
  seoKeywords :: SeoKeywords
  marketplaceTags :: "jsval list"

record Category =
  main :: jsval
  sub :: string
  tags :: "jsval list"

record SuggestedPrice =
  price_min :: jsnum
  price_max :: jsnum
  currency :: jsval
  reasoning :: jsval

record ListingContent =
  title :: string
  description :: jsval
  marketplaceContent :: MarketplaceContent
  category :: Category
  condition :: string
  conditionNotes :: jsval
  specifications :: jsval
  suggestedPrice :: SuggestedPrice
  searchKeywords :: "jsval list"
  warnings :: "jsval list"
  confidence :: jsnum
  aiProvider :: string
  generatedAt :: nat
  error :: "string option"

text \<open>The spec's flag \<open>parseFailed\<close> is the presence of the key \<^verbatim>\<open>error\<close>.\<close>

definition parseFailed :: "ListingContent \<Rightarrow> bool" where
  "parseFailed r = (error r \<noteq> None)"

section \<open>The response parser\<close>

text \<open>
  \<^verbatim>\<open>text.match(/\{[\s\S]*\}/)\<close>: the match starts at the first opening brace and, the
  star being greedy, ends at the last closing brace after it; there is no match when no
  closing brace follows the first opening brace.
\<close>

definition jsonMatch :: "string \<Rightarrow> string option" where
  "jsonMatch text =
     (let fromBrace = dropWhile (\<lambda>c. c \<noteq> CHR ''{'') text
      in if fromBrace = [] then None
         else if CHR ''}'' \<in> set (tl fromBrace)
              then Some (CHR ''{'' # rev (dropWhile (\<lambda>c. c \<noteq> CHR ''}'') (rev (tl fromBrace))))
              else None)"

text \<open>
  \<^verbatim>\<open>v?.substring(0, n)\<close>: \<^verbatim>\<open>undefined\<close> (here \<open>None\<close>) on \<^verbatim>\<open>undefined\<close> and \<^verbatim>\<open>null\<close>, the
  first \<open>n\<close> code units of a string, and a TypeError on every other value, which has no
  callable \<^verbatim>\<open>substring\<close>. \<open>strOr\<close> is \<^verbatim>\<open>|| d\<close> on the result.
\<close>

definition substringOpt :: "jsval \<Rightarrow> nat \<Rightarrow> js_error + string option" where
  "substringOpt v n =
     (case v of
        JUndefined \<Rightarrow> Inr None
      | JNull \<Rightarrow> Inr None
      | JStr s \<Rightarrow> Inr (Some (take n s))
      | _ \<Rightarrow> Inl TypeError)"

definition strOr :: "string option \<Rightarrow> string \<Rightarrow> string" where
  "strOr v d = (case v of None \<Rightarrow> d | Some s \<Rightarrow> if s = [] then d else s)"

text \<open>The object literal under \<^verbatim>\<open>specifications:\<close>, from \<^verbatim>\<open>parsed\<close>.\<close>

definition buildSpecifications :: "jsval \<Rightarrow> jsval" where
  "buildSpecifications parsed =
     (let specs = getProp parsed ''specifications''
      in JObj
        [(''brand'', orElse (optProp specs ''brand'') (JStr '''')),
         (''model'', orElse (optProp specs ''model'') (JStr '''')),
         (''modelNumber'', orElse (optProp specs ''modelNumber'') (JStr '''')),
         (''category'', orElse (optProp specs ''category'') (JStr '''')),
         (''subCategory'', orElse (optProp specs ''subCategory'') (JStr '''')),
         (''dimensions'', orElse (optProp specs ''dimensions'') (JStr '''')),
         (''weight'', orElse (optProp specs ''weight'') (JStr '''')),
         (''year'', orElse (optProp specs ''year'') JNull),
         (''color'', orElse (optProp specs ''color'') (JStr '''')),
         (''size'', orElse (orElse (optProp specs ''size'') (optProp specs ''capacity''))
                      (JStr '''')),
         (''material'', orElse (optProp specs ''material'') (JStr '''')),
         (''capacity'', orElse (optProp specs ''capacity'') (JStr '''')),
         (''condition'', orElse (optProp specs ''condition'') (JStr '''')),
         (''powerSpecs'', orElse (optProp specs ''powerSpecs'') (JStr '''')),
         (''connectivity'', orElse (optProp specs ''connectivity'') (JStr '''')),
         (''compatibility'', orElse (optProp specs ''compatibility'') (JStr '''')),
         (''warranty'', orElse (optProp specs ''warranty'') (JStr '''')),
         (''origin'', orElse (optProp specs ''origin'') (JStr '''')),
         (''certifications'', orElse (optProp specs ''certifications'') (JStr '''')),
         (''features'', JArr (arrayOrEmpty (getProp parsed ''keyFeatures''))),
         (''allSpecs'', orElse (optProp specs ''allSpecs'') (JObj []))])"

definition buildMarketplaceContent :: "jsval \<Rightarrow> MarketplaceContent" where
  "buildMarketplaceContent parsed =
     \<lparr> seoTitle = orElse (getProp parsed ''seoTitle'') (JStr ''''),
       keyFeatures = arrayOrEmpty (getProp parsed ''keyFeatures''),
       productDescription = orElse (getProp parsed ''productDescription'') (JStr ''''),
       shortMarketplaceSummary = orElse (getProp parsed ''shortMarketplaceSummary'') (JStr ''''),
       longSeoDescription = orElse (getProp parsed ''longSeoDescription'') (JStr ''''),
       seoKeywords =
         \<lparr> primary = arrayOrEmpty (optProp (getProp parsed ''seoKeywords'') ''primary''),
           secondary = arrayOrEmpty (optProp (getProp parsed ''seoKeywords'') ''secondary''),
           longTail = arrayOrEmpty (optProp (getProp parsed ''seoKeywords'') ''longTail'') \<rparr>,
       marketplaceTags = arrayOrEmpty (getProp parsed ''marketplaceTags'') \<rparr>"

text \<open>
  The object literal returned inside \<^verbatim>\<open>if (jsonMatch)\<close>. Its properties are evaluated in
  the order written. A read \<^verbatim>\<open>parsed.k\<close> throws only when \<^verbatim>\<open>parsed\<close> is \<^verbatim>\<open>undefined\<close> or
  \<^verbatim>\<open>null\<close>, and then at the first of them; the other expressions that can throw are
  \<^verbatim>\<open>substring\<close> on the title, \<^verbatim>\<open>validateCondition\<close>, and the three \<^verbatim>\<open>parseFloat\<close>.
\<close>

definition buildListing :: "nat \<Rightarrow> jsval \<Rightarrow> string \<Rightarrow> js_error + ListingContent" where
  "buildListing now parsed provider =
     (if nullish parsed then Inl TypeError
      else
       case substringOpt (getProp parsed ''seoTitle'') 200 of
         Inl e \<Rightarrow> Inl e
       | Inr t \<Rightarrow>
       (case validateCondition (getProp parsed ''condition'') of
         Inl e \<Rightarrow> Inl e
       | Inr cond \<Rightarrow>
       (case parseFloat (optProp (getProp parsed ''suggestedPrice'') ''min'') of
         Inl e \<Rightarrow> Inl e
       | Inr pmin \<Rightarrow>
       (case parseFloat (optProp (getProp parsed ''suggestedPrice'') ''max'') of
         Inl e \<Rightarrow> Inl e
       | Inr pmax \<Rightarrow>
       (case parseFloat (getProp parsed ''confidence'') of
         Inl e \<Rightarrow> Inl e
       | Inr conf \<Rightarrow>
           Inr \<lparr> title = strOr t ''Product Listing'',
                 description = orElse (getProp parsed ''productDescription'') (JStr ''''),
                 marketplaceContent = buildMarketplaceContent parsed,
                 category =
                   \<lparr> main = orElse (optProp (getProp parsed ''specifications'') ''category'')
                              (JStr ''Other''),
                     sub = '''',
                     tags = take 10 (arrayOrEmpty (getProp parsed ''marketplaceTags'')) \<rparr>,
                 condition = cond,
                 conditionNotes = orElse (getProp parsed ''conditionNotes'') (JStr ''''),
                 specifications = buildSpecifications parsed,
                 suggestedPrice =
                   \<lparr> price_min = numOr pmin (Fin 0),
                     price_max = numOr pmax (Fin 0),
                     currency = orElse (optProp (getProp parsed ''suggestedPrice'') ''currency'')
                                  (JStr ''USD''),
                     reasoning = orElse (optProp (getProp parsed ''suggestedPrice'') ''reasoning'')
                                   (JStr '''') \<rparr>,
                 searchKeywords =
                   arrayOrEmpty (optProp (getProp parsed ''seoKeywords'') ''primary'') @
                   arrayOrEmpty (optProp (getProp parsed ''seoKeywords'') ''secondary''),
                 warnings = arrayOrEmpty (getProp parsed ''warnings''),
                 confidence = numOr conf (Fin (1 / 2)),
                 aiProvider = provider,
                 generatedAt = now,
                 error = None \<rparr>)))))"

text \<open>
  The body of \<^verbatim>\<open>try\<close>. \<open>decode\<close> stands for \<^verbatim>\<open>JSON.parse\<close>, which belongs to the runtime:
  it returns the decoded value or throws. \<^verbatim>\<open>text.match\<close> exists on strings only.
\<close>

definition tryBlock ::
  "(string \<Rightarrow> js_error + jsval) \<Rightarrow> nat \<Rightarrow> jsval \<Rightarrow> string \<Rightarrow> js_error + ListingContent" where
  "tryBlock decode now text provider =
     (case text of
        JStr s \<Rightarrow>
          (case jsonMatch s of
             None \<Rightarrow> Inl (Error ''Could not parse AI response'')
           | Some m \<Rightarrow>
               (case decode m of
                  Inl e \<Rightarrow> Inl e
                | Inr parsed \<Rightarrow> buildListing now parsed provider))
      | _ \<Rightarrow> Inl TypeError)"

text \<open>The object literal returned inside \<^verbatim>\<open>catch\<close>, for a string \<open>s\<close>.\<close>

definition degradedListing :: "nat \<Rightarrow> string \<Rightarrow> string \<Rightarrow> ListingContent" where
  "degradedListing now s provider =
     \<lparr> title = ''Product for Sale'',
       description = JStr (take 1000 s),
       marketplaceContent =
         \<lparr> seoTitle = JStr '''',
           keyFeatures = [],
           productDescription = JStr (take 500 s),
           shortMarketplaceSummary = JStr '''',
           longSeoDescription = JStr '''',
           seoKeywords = \<lparr> primary = [], secondary = [], longTail = [] \<rparr>,
           marketplaceTags = [] \<rparr>,
       category = \<lparr> main = JStr ''Other'', sub = '''', tags = [] \<rparr>,
       condition = ''good'',
       conditionNotes = JStr '''',
       specifications = JObj [],
       suggestedPrice =
         \<lparr> price_min = Fin 0, price_max = Fin 0, currency = JStr ''USD'',
           reasoning = JStr '''' \<rparr>,
       searchKeywords = [],
       warnings = [],
       confidence = Fin (3 / 10),
       aiProvider = provider,
       generatedAt = now,
       error = Some ''Failed to parse structured response'' \<rparr>"

text \<open>
  The body of \<^verbatim>\<open>catch\<close>: the two \<^verbatim>\<open>console.error\<close> calls only log and are left out;
  \<^verbatim>\<open>text.substring\<close> throws on a value that is not a string, and nothing catches that.
\<close>

definition catchBlock :: "nat \<Rightarrow> jsval \<Rightarrow> string \<Rightarrow> js_error + ListingContent" where
  "catchBlock now text provider =
     (case text of
        JStr s \<Rightarrow> Inr (degradedListing now s provider)
      | _ \<Rightarrow> Inl TypeError)"

definition parseAIResponse ::
  "(string \<Rightarrow> js_error + jsval) \<Rightarrow> nat \<Rightarrow> jsval \<Rightarrow> string \<Rightarrow> js_error + ListingContent" where
  "parseAIResponse decode now text provider =
     (case tryBlock decode now text provider of
        Inr r \<Rightarrow> Inr r
      | Inl e \<Rightarrow> catchBlock now text provider)"

section \<open>A reference decoder for JSON text\<close>

text \<open>
  \<^verbatim>\<open>JSON.parse\<close> is a parameter of the parser above. For inputs given as text, the
  grammar of ECMA-404 is written out here: a lexer, then a pushdown recogniser that
  builds the value. A duplicate key keeps its place and takes the later value. An escape
  \<^verbatim>\<open>\uXXXX\<close> above U+00FF has no character in this model and is rejected.
\<close>

datatype token =
    TLBrace | TRBrace | TLBrack | TRBrack | TColon | TComma
  | TString string | TNumber rat | TTrue | TFalse | TNull

definition isJsonWs :: "char \<Rightarrow> bool" where
  "isJsonWs c = (c \<in> set [CHR 0x09, CHR 0x0A, CHR 0x0D, CHR 0x20])"

definition hexVal :: "char \<Rightarrow> nat option" where
  "hexVal c =
     map_of (zip ''0123456789abcdefABCDEF''
       [0, 1, 2, 3, 4, 5, 6, 7, 8, 9, 10, 11, 12, 13, 14, 15, 10, 11, 12, 13, 14, 15]) c"

definition hex4 :: "char \<Rightarrow> char \<Rightarrow> char \<Rightarrow> char \<Rightarrow> char option" where
  "hex4 a b c d =
     (case (hexVal a, hexVal b, hexVal c, hexVal d) of
        (Some x, Some y, Some z, Some w) \<Rightarrow>
          if x = 0 \<and> y = 0 then Some (char_of (16 * z + w)) else None
      | _ \<Rightarrow> None)"

definition unescape :: "char \<Rightarrow> char option" where
  "unescape e =
     map_of [(CHR 0x22, CHR 0x22), (CHR 0x5C, CHR 0x5C), (CHR ''/'', CHR ''/''),
             (CHR ''b'', CHR 0x08), (CHR ''f'', CHR 0x0C), (CHR ''n'', CHR 0x0A),
             (CHR ''r'', CHR 0x0D), (CHR ''t'', CHR 0x09)] e"

text \<open>
  The characters of a string after its opening quote: the decoded string and the text
  after the closing quote. \<open>acc\<close> holds the decoded characters, last first.
\<close>

fun lexString :: "string \<Rightarrow> string \<Rightarrow> (string \<times> string) option" where
  "lexString acc [] = None"
| "lexString acc (c # cs) =
     (if c = CHR 0x22 then Some (rev acc, cs)
      else if c = CHR 0x5C then
        (case cs of
           [] \<Rightarrow> None
         | e # cs1 \<Rightarrow>
             if e = CHR ''u'' then
               (case cs1 of
                  h1 # h2 # h3 # h4 # cs2 \<Rightarrow>
                    (case hex4 h1 h2 h3 h4 of
                       None \<Rightarrow> None
                     | Some ch \<Rightarrow> lexString (ch # acc) cs2)
                | _ \<Rightarrow> None)
             else
               (case unescape e of
                  None \<Rightarrow> None
                | Some ch \<Rightarrow> lexString (ch # acc) cs1))
      else if (of_char c :: nat) < 32 then None
      else lexString (c # acc) cs)"

text \<open>
  A number \<^verbatim>\<open>-?(0|[1-9][0-9]*)(\.[0-9]+)?([eE][+-]?[0-9]+)?\<close> at the head of the text:
  its value and the text after it.
\<close>

definition lexNumber :: "string \<Rightarrow> (rat \<times> string) option" where
  "lexNumber s =
     (let neg = (s \<noteq> [] \<and> hd s = CHR ''-'');
          u = (if neg then tl s else s);
          ip = takeWhile isDigit u;
          r1 = dropWhile isDigit u;
          hasDot = (r1 \<noteq> [] \<and> hd r1 = CHR ''.'');
          fp = (if hasDot then takeWhile isDigit (tl r1) else []);
          r2 = (if hasDot then dropWhile isDigit (tl r1) else r1);
          hasExp = (r2 \<noteq> [] \<and> (hd r2 = CHR ''e'' \<or> hd r2 = CHR ''E''))
      in if ip = [] \<or> (1 < length ip \<and> hd ip = CHR ''0'') then None
         else if hasDot \<and> fp = [] then None
         else
          (case lexExponent r2 of
             (eneg, e, r3) \<Rightarrow>
               if hasExp \<and> r3 = r2 then None
               else Some ((if neg then - 1 else 1) *
                          scale10 (of_nat (digitsVal (ip @ fp)) / 10 ^ length fp) eneg e,
                          r3)))"

text \<open>
  The lexer walks the text once. After a string, a number or a literal it skips the
  characters that the token took: \<open>skip\<close> counts them.
\<close>

fun tokenize :: "nat \<Rightarrow> string \<Rightarrow> token list option" where
  "tokenize skip [] = Some []"
| "tokenize skip (c # cs) =
     (if 0 < skip then tokenize (skip - 1) cs
      else if isJsonWs c then tokenize 0 cs
      else if c = CHR ''{'' then map_option ((#) TLBrace) (tokenize 0 cs)
      else if c = CHR ''}'' then map_option ((#) TRBrace) (tokenize 0 cs)
      else if c = CHR ''['' then map_option ((#) TLBrack) (tokenize 0 cs)
      else if c = CHR '']'' then map_option ((#) TRBrack) (tokenize 0 cs)
      else if c = CHR '':'' then map_option ((#) TColon) (tokenize 0 cs)
      else if c = CHR '','' then map_option ((#) TComma) (tokenize 0 cs)
      else if c = CHR 0x22 then
        (case lexString [] cs of
           None \<Rightarrow> None
         | Some (s, rest) \<Rightarrow>
             map_option ((#) (TString s)) (tokenize (length cs - length rest) cs))
      else if c = CHR ''-'' \<or> isDigit c then
        (case lexNumber (c # cs) of
           None \<Rightarrow> None
         | Some (q, rest) \<Rightarrow>
             map_option ((#) (TNumber q)) (tokenize (length cs - length rest) cs))
      else if startsWith (c # cs) ''true'' then map_option ((#) TTrue) (tokenize 3 cs)
      else if startsWith (c # cs) ''false'' then map_option ((#) TFalse) (tokenize 4 cs)
      else if startsWith (c # cs) ''null'' then map_option ((#) TNull) (tokenize 3 cs)
      else None)"

text \<open>
  The recogniser keeps the containers that are open, innermost first: an array with its
  elements so far, an object with its members so far and the key that waits for its
  value. \<open>expect\<close> says what may come next.
\<close>

datatype frame = FArr "jsval list" | FObj "(string \<times> jsval) list" "string option"

datatype expect =
    ExpValue | ExpValueOrClose | ExpKeyOrClose | ExpKey | ExpColon | ExpCommaOrClose
  | ExpEnd jsval

definition setProp :: "string \<Rightarrow> jsval \<Rightarrow> (string \<times> jsval) list \<Rightarrow> (string \<times> jsval) list" where
  "setProp k v kvs =
     (if map_of kvs k = None then kvs @ [(k, v)]
      else map (\<lambda>(k', v'). if k' = k then (k', v) else (k', v')) kvs)"

text \<open>A finished value goes into the innermost open container, or ends the text.\<close>

definition place :: "jsval \<Rightarrow> frame list \<Rightarrow> (expect \<times> frame list) option" where
  "place v st =
     (case st of
        [] \<Rightarrow> Some (ExpEnd v, [])
      | FArr xs # st1 \<Rightarrow> Some (ExpCommaOrClose, FArr (xs @ [v]) # st1)
      | FObj kvs (Some k) # st1 \<Rightarrow> Some (ExpCommaOrClose, FObj (setProp k v kvs) None # st1)
      | FObj kvs None # st1 \<Rightarrow> None)"

definition startValue :: "token \<Rightarrow> frame list \<Rightarrow> (expect \<times> frame list) option" where
  "startValue t st =
     (case t of
        TLBrace \<Rightarrow> Some (ExpKeyOrClose, FObj [] None # st)
      | TLBrack \<Rightarrow> Some (ExpValueOrClose, FArr [] # st)
      | TString s \<Rightarrow> place (JStr s) st
      | TNumber q \<Rightarrow> place (JNum (Fin q)) st
      | TTrue \<Rightarrow> place (JBool True) st
      | TFalse \<Rightarrow> place (JBool False) st
      | TNull \<Rightarrow> place JNull st
      | _ \<Rightarrow> None)"

definition closeFrame :: "token \<Rightarrow> frame list \<Rightarrow> (expect \<times> frame list) option" where
  "closeFrame t st =
     (case (t, st) of
        (TRBrack, FArr xs # st1) \<Rightarrow> place (JArr xs) st1
      | (TRBrace, FObj kvs None # st1) \<Rightarrow> place (JObj kvs) st1
      | _ \<Rightarrow> None)"

definition readKey :: "token \<Rightarrow> frame list \<Rightarrow> (expect \<times> frame list) option" where
  "readKey t st =
     (case (t, st) of
        (TString k, FObj kvs None # st1) \<Rightarrow> Some (ExpColon, FObj kvs (Some k) # st1)
      | _ \<Rightarrow> None)"

definition step :: "expect \<Rightarrow> frame list \<Rightarrow> token \<Rightarrow> (expect \<times> frame list) option" where
  "step e st t =
     (case e of
        ExpValue \<Rightarrow> startValue t st
      | ExpValueOrClose \<Rightarrow> (if t = TRBrack then closeFrame t st else startValue t st)
      | ExpKeyOrClose \<Rightarrow> (if t = TRBrace then closeFrame t st else readKey t st)
      | ExpKey \<Rightarrow> readKey t st
      | ExpColon \<Rightarrow> (if t = TColon then Some (ExpValue, st) else None)
      | ExpCommaOrClose \<Rightarrow>
          (if t = TComma then
             (case st of
                FArr xs # st1 \<Rightarrow> Some (ExpValue, st)
              | FObj kvs None # st1 \<Rightarrow> Some (ExpKey, st)
              | _ \<Rightarrow> None)
           else closeFrame t st)
      | ExpEnd v \<Rightarrow> None)"

fun recognise :: "expect \<Rightarrow> frame list \<Rightarrow> token list \<Rightarrow> jsval option" where
  "recognise e st [] = (case e of ExpEnd v \<Rightarrow> Some v | _ \<Rightarrow> None)"
| "recognise e st (t # ts) =
     (case step e st t of
        None \<Rightarrow> None
      | Some (e1, st1) \<Rightarrow> recognise e1 st1 ts)"

definition JSON_parse :: "string \<Rightarrow> js_error + jsval" where
  "JSON_parse s =
     (case tokenize 0 s of
        None \<Rightarrow> Inl SyntaxError
      | Some ts \<Rightarrow>
          (case recognise ExpValue [] ts of
             None \<Rightarrow> Inl SyntaxError
           | Some v \<Rightarrow> Inr v))"

section \<open>The prompt builder\<close>

text \<open>
  The fixed text of the template literals in \<^verbatim>\<open>buildPrompt\<close>, line by line. The dash
  U+2014 of the template stands here as the three bytes of its UTF-8 form.
\<close>

fun joinLines :: "string list \<Rightarrow> string" where
  "joinLines [] = []"
| "joinLines [l] = l"
| "joinLines (l # ls) = l @ CHR 0x0A # joinLines ls"

definition promptIntro :: string where
  \<open>promptIntro = joinLines
     [''Act as a senior e-commerce content strategist and marketplace listing expert.'',
      '''',
      ''Generate premium marketplace content for this product: **'']\<close>

definition promptSchema :: string where
  \<open>promptSchema = joinLines
     [''**'',
      '''',
      ''Deliver the output in strict JSON format with the following structure:'',
      '''',
      ''{'',
      ''  "seoTitle": "SEO-optimised product title (80-120 chars) - include brand, model, key features",'',
      ''  "keyFeatures": ['',
      ''    "6-10 bullet points focused on real benefits, not just specs",'',
      ''    "Emphasise build quality, energy efficiency, hygiene, durability, capacity, quiet operation",'',
      ''    "Each point should highlight value and user benefits"'',
      ''  ],'',
      (''  "productDescription": "2-3 paragraphs, premium tone. Clear, helpful, professional '' @ [CHR 0xE2, CHR 0x80, CHR 0x94] @ '' no hype. Explain who it's ideal for and why. (200-300 words)",''),
      ''  "specifications": {'',
      ''    "brand": "Product brand",'',
      ''    "model": "Product model",'',
      ''    "modelNumber": "Full model number",'',
      ''    "category": "Product category (Electronics, Fashion, Home Appliances, Furniture, Sports, Automotive, etc.)",'',
      ''    "subCategory": "Specific subcategory",'',
      ''    "dimensions": "Product dimensions (L x W x H)",'',
      ''    "weight": "Product weight",'',
      ''    "capacity": "Capacity/Size if applicable",'',
      ''    "color": "Product color/finish",'',
      ''    "material": "Primary materials used",'',
      ''    "year": "Year/manufacture date",'',
      ''    "condition": "Current condition assessment",'',
      ''    "powerSpecs": "Power requirements/battery (if applicable)",'',
      ''    "connectivity": "Connection types/ports (if applicable)",'',
      ''    "compatibility": "Compatible systems/models (if applicable)",'',
      ''    "warranty": "Warranty information (if known)",'',
      ''    "origin": "Country of manufacture (if visible)",'',
      ''    "certifications": "Safety certifications/standards (if visible)",'',
      ''    "allSpecs": {'',
      ''      "Generate ALL product-specific specifications here as key-value pairs": "Include every technical detail, feature, measurement, rating, etc. based on product type",'',
      ''      "For Electronics": "Screen size, resolution, processor, RAM, storage, battery, OS, etc.",'',
      ''      "For Appliances": "Energy rating, capacity, dimensions, load type, RPM, noise level, etc.",'',
      ''      "For Furniture": "Dimensions, material, weight capacity, assembly required, style, etc.",'',
      ''      "For Clothing": "Size, fit, fabric composition, care instructions, style, etc.",'',
      ''      "For Vehicles/Parts": "Make, model, year, VIN, mileage, engine, transmission, etc.",'',
      ''      "Be comprehensive": "Include everything visible or known about this specific product"'',
      ''    }'',
      ''  },'',
      ''  "shortMarketplaceSummary": "1 concise paragraph for eBay/FB Marketplace/Google Shopping (50-80 words)",'',
      ''  "longSeoDescription": "1-2 paragraphs targeting search keywords. Avoid repetition from earlier sections. Focus on benefits and search intent. (150-200 words)",'',
      ''  "seoKeywords": {'',
      ''    "primary": ["3-5 primary keywords"],'',
      ''    "secondary": ["5-7 secondary keywords"],'',
      ''    "longTail": ["5-8 long-tail keywords phrases"]'',
      ''  },'',
      ''  "marketplaceTags": ["20-30 relevant tags for marketplace categorisation"],'',
      ''  "condition": "new|like-new|excellent|good|fair|poor|for-parts",'',
      ''  "conditionNotes": "Specific condition details if visible, any defects or wear",'',
      ''  "suggestedPrice": {'',
      ''    "min": 0,'',
      ''    "max": 0,'',
      ''    "currency": "USD",'',
      ''    "reasoning": "Brief price justification based on condition and market value"'',
      ''  },'',
      ''  "warnings": ["Any safety or authenticity concerns if applicable"],'',
      ''  "confidence": 0.95'',
      ''}'',
      '''',
      ''**Tone & Style Guidelines:**'',
      ''- Sounds like premium retail (Appliances Online / The Good Guys / JB Hi-Fi)'',
      ''- Clean, confident, premium tone'',
      ''- Australia context where relevant'',
      ''- Zero fluff, zero overly-salesy language'',
      ''- Use straightforward language, high trust, high clarity'',
      ''- Focus on durability, hygiene, efficiency and real user benefits'',
      '''',
      ''**Important:**'',
      ''- Write as if product details are known'',
      ''- Focus on high-intent keywords and conversion'',
      ''- Make content suitable for Facebook Marketplace, eBay, Google Shopping & website product pages'',
      ''- Include keywords that improve search ranking'',
      ''- Avoid repeated sentences across sections'',
      ''- **CRITICAL: Generate ALL possible specifications for this product type**'',
      ''- Extract every technical detail visible or known'',
      ''- Fill the "allSpecs" object with comprehensive product-specific details'',
      ''- Be thorough - more specifications = better listings'']\<close>

definition promptModelHead :: string where
  \<open>promptModelHead = joinLines
     ['''',
      '''',
      ''**Product Model Number:** '']\<close>

definition promptModelTail :: string where
  \<open>promptModelTail = joinLines
     ['''',
      '''',
      ''Look up this exact model and provide:'',
      ''- ALL technical specifications from manufacturer'',
      ''- Complete feature list'',
      ''- Every measurement and rating'',
      ''- All compatibility information'',
      ''- Full performance specifications'',
      ''- Any certifications or standards'',
      ''- Complete material/construction details'',
      ''- Everything a buyer would want to know'']\<close>

definition promptImagesNote :: string where
  \<open>promptImagesNote = joinLines
     ['''',
      '''',
      ''**Note:** Analyze the product from the images provided.'',
      '''',
      ''Extract from images:'',
      ''- Identify brand, model, and model numbers from labels'',
      ''- Read all visible text, labels, and tags'',
      ''- Estimate dimensions from context'',
      ''- Identify materials from appearance'',
      ''- Note any visible specifications or ratings'',
      ''- Capture serial numbers or model codes'',
      ''- Identify any certifications or safety marks'',
      ''- Extract ALL visible information'']\<close>

definition promptContextHead :: string where
  \<open>promptContextHead = joinLines
     ['''',
      '''',
      ''**Additional Context:** '']\<close>

definition promptClosing :: string where
  \<open>promptClosing = joinLines
     ['''',
      '''',
      ''Be accurate and honest about the condition. If you cannot determine certain details from the information provided, indicate that clearly in the confidence score.'']\<close>

text \<open>
  The service object: the provider that the configuration prefers, the two clients (absent
  without an API key) and what the module reaches of the outside world. A client is the
  function from its request to the text of the answer, or to the error thrown on the way.
\<close>

record InlineData =
  data :: string
  mimeType :: string

record Service =
  preferredProvider :: string
  geminiModel :: "(string \<Rightarrow> InlineData list \<Rightarrow> js_error + jsval) option"
  openai :: "(string \<Rightarrow> string \<Rightarrow> string list \<Rightarrow> js_error + jsval) option"
  fetch :: "string \<Rightarrow> js_error + string \<times> string option"
  base64 :: "string \<Rightarrow> string"
  jsonParse :: "string \<Rightarrow> js_error + jsval"
  clock :: nat

text \<open>An optional string argument is truthy when it is present and not empty.\<close>

definition strTruthy :: "string option \<Rightarrow> bool" where
  "strTruthy v = (case v of None \<Rightarrow> False | Some s \<Rightarrow> s \<noteq> [])"

text \<open>
  \<^verbatim>\<open>buildPrompt(modelNumber, additionalInfo)\<close> is a method; \<open>this\<close> is the object it is
  called on.
\<close>

definition buildPrompt :: "Service \<Rightarrow> string option \<Rightarrow> string option \<Rightarrow> string" where
  "buildPrompt this modelNumber additionalInfo =
     (let productIdentifier = strOr modelNumber ''the product shown in the images'';
          prompt0 = promptIntro @ productIdentifier @ promptSchema;
          prompt1 = (if strTruthy modelNumber
                     then prompt0 @ promptModelHead @ strOr modelNumber [] @ promptModelTail
                     else prompt0 @ promptImagesNote);
          prompt2 = (if strTruthy additionalInfo
                     then prompt1 @ promptContextHead @ strOr additionalInfo []
                     else prompt1)
      in prompt2 @ promptClosing)"

section \<open>The service operation\<close>

text \<open>
  A call of \<^verbatim>\<open>analyzeProductImages\<close> returns its outcome together with the calls it made
  to the outside, in the order it made them.
\<close>

datatype event =
    Fetch string
  | GenerateContent string "InlineData list"
  | ChatCompletion string string "string list"

definition noImages :: "string list option \<Rightarrow> bool" where
  "noImages images = (case images of None \<Rightarrow> True | Some us \<Rightarrow> us = [])"

text \<open>
  \<^verbatim>\<open>Promise.all(images.map(async (imageUrl) => ...))\<close>: every image is fetched, and one
  failure fails the whole. Which of several failures is reported is not observable after
  the \<^verbatim>\<open>catch\<close> of the caller; the model reports the first in the order of the list.
\<close>

fun fetchParts :: "Service \<Rightarrow> string list \<Rightarrow> js_error + InlineData list" where
  "fetchParts this [] = Inr []"
| "fetchParts this (u # us) =
     (case fetch this u of
        Inl e \<Rightarrow> Inl e
      | Inr (body, ctype) \<Rightarrow>
          (case fetchParts this us of
             Inl e \<Rightarrow> Inl e
           | Inr ps \<Rightarrow>
               Inr (\<lparr> data = base64 this body, mimeType = strOr ctype ''image/jpeg'' \<rparr> # ps)))"

definition analyzeWithGemini ::
  "Service \<Rightarrow> (string \<Rightarrow> InlineData list \<Rightarrow> js_error + jsval) \<Rightarrow> string list option \<Rightarrow>
   string option \<Rightarrow> string option \<Rightarrow> (js_error + ListingContent) \<times> event list" where
  "analyzeWithGemini this generateContent images modelNumber additionalInfo =
     (let prompt = buildPrompt this modelNumber additionalInfo
      in if noImages images then
           (case generateContent prompt [] of
              Inl e \<Rightarrow> (Inl e, [GenerateContent prompt []])
            | Inr text \<Rightarrow>
                (parseAIResponse (jsonParse this) (clock this) text ''gemini'',
                 [GenerateContent prompt []]))
         else
           (let urls = (case images of None \<Rightarrow> [] | Some us \<Rightarrow> us)
            in case fetchParts this urls of
                 Inl e \<Rightarrow> (Inl e, map Fetch urls)
               | Inr imageParts \<Rightarrow>
                   (case generateContent prompt imageParts of
                      Inl e \<Rightarrow> (Inl e, map Fetch urls @ [GenerateContent prompt imageParts])
                    | Inr text \<Rightarrow>
                        (parseAIResponse (jsonParse this) (clock this) text ''gemini'',
                         map Fetch urls @ [GenerateContent prompt imageParts]))))"

definition systemSpecifications :: string where
  "systemSpecifications = ''You are an expert at analyzing product specifications and creating detailed, accurate marketplace listings. Always provide honest condition assessments and accurate product information.''"

definition systemImages :: string where
  "systemImages = ''You are an expert at analyzing product images and creating detailed, accurate marketplace listings. Always provide honest condition assessments and accurate product information.''"

definition analyzeWithGPT4 ::
  "Service \<Rightarrow> (string \<Rightarrow> string \<Rightarrow> string list \<Rightarrow> js_error + jsval) \<Rightarrow> string list option \<Rightarrow>
   string option \<Rightarrow> string option \<Rightarrow> (js_error + ListingContent) \<times> event list" where
  "analyzeWithGPT4 this create images modelNumber additionalInfo =
     (let prompt = buildPrompt this modelNumber additionalInfo;
          system = (if noImages images then systemSpecifications else systemImages);
          urls = (case images of None \<Rightarrow> [] | Some us \<Rightarrow> us)
      in case create system prompt urls of
           Inl e \<Rightarrow> (Inl e, [ChatCompletion system prompt urls])
         | Inr content \<Rightarrow>
             (parseAIResponse (jsonParse this) (clock this) content ''openai'',
              [ChatCompletion system prompt urls]))"

text \<open>
  \<^verbatim>\<open>
  async analyzeProductImages(images, modelNumber = null, additionalInfo = null) {
    try {
      if ((!images || images.length === 0) && !modelNumber) {
        throw new AppError('Either images or model number is required', 400);
      }
      if (this.preferredProvider === 'gemini' && this.geminiModel) {
        return await this.analyzeWithGemini(images, modelNumber, additionalInfo);
      } else if (this.preferredProvider === 'openai' && openai) {
        return await this.analyzeWithGPT4(images, modelNumber, additionalInfo);
      } else {
        throw new AppError('AI service not configured', 500);
      }
    } catch (error) {
      console.error('AI analysis error:', error);
      throw new AppError('Failed to analyze product images', 500);
    }
  }
  \<close>
  \<open>analyzeTry\<close> is the body of \<^verbatim>\<open>try\<close>; the \<^verbatim>\<open>catch\<close> replaces whatever was thrown.
\<close>

definition analyzeTry ::
  "Service \<Rightarrow> string list option \<Rightarrow> string option \<Rightarrow> string option \<Rightarrow>
   (js_error + ListingContent) \<times> event list" where
  "analyzeTry this images modelNumber additionalInfo =
     (if noImages images \<and> \<not> strTruthy modelNumber
      then (Inl (AppError ''Either images or model number is required'' 400), [])
      else
        case (preferredProvider this = ''gemini'', geminiModel this) of
          (True, Some generateContent) \<Rightarrow>
            analyzeWithGemini this generateContent images modelNumber additionalInfo
        | _ \<Rightarrow>
           (case (preferredProvider this = ''openai'', openai this) of
              (True, Some create) \<Rightarrow>
                analyzeWithGPT4 this create images modelNumber additionalInfo
            | _ \<Rightarrow> (Inl (AppError ''AI service not configured'' 500), [])))"

definition analyzeProductImages ::
  "Service \<Rightarrow> string list option \<Rightarrow> string option \<Rightarrow> string option \<Rightarrow>
   (js_error + ListingContent) \<times> event list" where
  "analyzeProductImages this images modelNumber additionalInfo =
     (case analyzeTry this images modelNumber additionalInfo of
        (Inl e, evs) \<Rightarrow> (Inl (AppError ''Failed to analyze product images'' 500), evs)
      | (Inr r, evs) \<Rightarrow> (Inr r, evs))"

section \<open>Predicates of the statements\<close>

text \<open>
  The inputs that the contract of the normalizer names: an absent value or a string.
\<close>

definition optionalString :: "jsval \<Rightarrow> bool" where
  "optionalString c =
     (case c of JUndefined \<Rightarrow> True | JNull \<Rightarrow> True | JStr s \<Rightarrow> True | _ \<Rightarrow> False)"

text \<open>A number of the closed interval from 0 to 1.\<close>

definition inUnitInterval :: "jsnum \<Rightarrow> bool" where
  "inUnitInterval n = (case n of Fin q \<Rightarrow> 0 \<le> q \<and> q \<le> 1 | _ \<Rightarrow> False)"

text \<open>The keys of \<^verbatim>\<open>specifications\<close> that are copied from the decoded object.\<close>

definition copiedSpecKeys :: "string list" where
  "copiedSpecKeys =
     [''brand'', ''model'', ''modelNumber'', ''category'', ''subCategory'', ''dimensions'',
      ''weight'', ''year'', ''color'', ''size'', ''material'', ''capacity'', ''condition'',
      ''powerSpecs'', ''connectivity'', ''compatibility'', ''warranty'', ''origin'',
      ''certifications'', ''allSpecs'']"

text \<open>
  What an entry of \<^verbatim>\<open>specifications\<close> becomes where the decoded value is falsy: the empty
  string, but \<^verbatim>\<open>null\<close> for the year, the empty object for \<^verbatim>\<open>allSpecs\<close>, and the
  capacity (or the empty string) for the size.
\<close>

definition specDefault :: "jsval \<Rightarrow> string \<Rightarrow> jsval" where
  "specDefault specs k =
     (if k = ''year'' then JNull
      else if k = ''allSpecs'' then JObj []
      else if k = ''size'' then orElse (optProp specs ''capacity'') (JStr [])
      else JStr [])"

section \<open>Evaluation rules and basic facts\<close>

lemmas cond_ev = validateCondition_def normalizeCondition_def toLowerCase_def toLowerChar_def
  upperChars_def lowerChars_def stripNonCondition_def validConditions_def conditionMap_def

lemmas json_ev = JSON_parse_def isJsonWs_def lexNumber_def lexExponent_def isDigit_def
  digitsVal_def digitVal_def scale10_def step_def startValue_def place_def closeFrame_def
  readKey_def setProp_def unescape_def hexVal_def hex4_def

lemmas float_ev = parseFloat_def parseFloatStr_def isStrWhiteSpace_def isDigit_def
  lexExponent_def digitsVal_def digitVal_def scale10_def numOr_def

lemmas parse_ev = parseAIResponse_def tryBlock_def catchBlock_def jsonMatch_def
  buildListing_def substringOpt_def strOr_def getProp_def optProp_def nullish_def
  orElse_def arrayOrEmpty_def

lemma buildListing_error: "buildListing now parsed provider = Inr r \<Longrightarrow> error r = None"
  by (auto simp: buildListing_def split: if_splits sum.splits)

lemma degraded_error:
  "error (degradedListing now s provider) = Some ''Failed to parse structured response''"
  by (simp add: degradedListing_def)

text \<open>On a string the \<^verbatim>\<open>catch\<close> block cannot throw, so the method returns on every path.\<close>

lemma parse_string_cases:
  "parseAIResponse decode now (JStr text) provider =
     (case tryBlock decode now (JStr text) provider of
        Inr r \<Rightarrow> Inr r
      | Inl e \<Rightarrow> Inr (degradedListing now text provider))"
  by (simp add: parseAIResponse_def catchBlock_def split: sum.splits)

lemma parse_returns: "\<exists>r. parseAIResponse decode now (JStr text) provider = Inr r"
  by (simp add: parse_string_cases split: sum.splits)

lemma tryBlock_Inr:
  "tryBlock decode now (JStr text) provider = Inr r \<Longrightarrow>
     \<exists>m parsed. jsonMatch text = Some m \<and> decode m = Inr parsed \<and>
       buildListing now parsed provider = Inr r"
  by (auto simp: tryBlock_def split: option.splits sum.splits)

lemma tryBlock_error: "tryBlock decode now (JStr text) provider = Inr r \<Longrightarrow> error r = None"
  by (auto dest!: tryBlock_Inr buildListing_error)

lemma parse_not_failed:
  assumes "parseAIResponse decode now (JStr text) provider = Inr r" and "\<not> parseFailed r"
  shows "tryBlock decode now (JStr text) provider = Inr r"
  using assms
  by (auto simp: parse_string_cases parseFailed_def degraded_error split: sum.splits)

lemma parse_success:
  assumes "parseAIResponse decode now (JStr text) provider = Inr r" and "\<not> parseFailed r"
    and "jsonMatch text = Some m" and "decode m = Inr parsed"
  shows "buildListing now parsed provider = Inr r"
  using parse_not_failed [OF assms(1,2)] assms(3,4) by (simp add: tryBlock_def)

text \<open>Where the text is not a string, both blocks throw and the method throws.\<close>

lemma parse_not_string:
  "text = JUndefined \<or> text = JNull \<Longrightarrow> parseAIResponse decode now text provider = Inl TypeError"
  by (auto simp: parseAIResponse_def tryBlock_def catchBlock_def)

section \<open>The parser never fails outward\<close>

text \<open>
  Claim C1. For every string \<open>text\<close>, every provider id and every behaviour of
  \<^verbatim>\<open>JSON.parse\<close>, \<open>parseAIResponse\<close> returns a record and does not throw. The record
  carries the failure flag exactly when the \<^verbatim>\<open>try\<close> block threw (no JSON located, a decode
  error, or a type error while the fields were read), and a flagged record is the
  fallback record built in the \<^verbatim>\<open>catch\<close> block.
\<close>

theorem parseAIResponse_never_throws:
  "\<exists>r. parseAIResponse decode now (JStr text) provider = Inr r \<and>
        (parseFailed r \<longleftrightarrow> (\<exists>e. tryBlock decode now (JStr text) provider = Inl e)) \<and>
        (parseFailed r \<longrightarrow> r = degradedListing now text provider)"
proof (cases "tryBlock decode now (JStr text) provider")
  case (Inl e)
  then show ?thesis
    by (simp add: parse_string_cases parseFailed_def degraded_error)
next
  case (Inr r)
  then show ?thesis
    using tryBlock_error [OF Inr] by (simp add: parse_string_cases parseFailed_def)
qed

text \<open>
  At the text \<^verbatim>\<open>{oops}\<close> a JSON object is located, the decoder throws a SyntaxError, and
  the fallback record comes back.
\<close>

theorem parseAIResponse_never_throws_witness:
  "JSON_parse ''{oops}'' = Inl SyntaxError \<and>
   parseAIResponse JSON_parse 0 (JStr ''{oops}'') ''gemini''
     = Inr (degradedListing 0 ''{oops}'' ''gemini'') \<and>
   parseFailed (degradedListing 0 ''{oops}'' ''gemini'')"
proof -
  have d: "JSON_parse ''{oops}'' = Inl SyntaxError"
    by (simp add: json_ev)
  have t: "tryBlock JSON_parse 0 (JStr ''{oops}'') ''gemini'' = Inl SyntaxError"
    by (simp add: tryBlock_def jsonMatch_def d)
  show ?thesis
    using d t parseAIResponse_never_throws [of JSON_parse 0 "''{oops}''" "''gemini''"]
    by auto
qed

section \<open>The condition is always canonical\<close>

lemma mapVariations_conditionMap: "mapVariations conditionMap n \<in> set validConditions"
  by (simp add: conditionMap_def validConditions_def)

lemma validateCondition_canonical:
  "validateCondition c = Inr v \<Longrightarrow> v \<in> set validConditions"
  using mapVariations_conditionMap
  by (auto simp: validateCondition_def split: sum.splits option.splits if_splits)

lemma buildListing_condition:
  "buildListing now parsed provider = Inr r \<Longrightarrow> condition r \<in> set validConditions"
  by (auto simp: buildListing_def split: if_splits sum.splits dest: validateCondition_canonical)

lemma parse_condition:
  assumes "parseAIResponse decode now (JStr text) provider = Inr r"
  shows "condition r \<in> set validConditions"
proof (cases "tryBlock decode now (JStr text) provider")
  case (Inl e)
  with assms have "r = degradedListing now text provider" by (simp add: parse_string_cases)
  then show ?thesis by (simp add: degradedListing_def validConditions_def)
next
  case (Inr r')
  with assms have "r = r'" by (simp add: parse_string_cases)
  with tryBlock_Inr [OF Inr] show ?thesis by (auto dest: buildListing_condition)
qed

text \<open>
  A value that is neither absent nor a string makes the normalizer throw; inside the
  parser the \<^verbatim>\<open>catch\<close> block turns that into the fallback record.
\<close>

lemma validateCondition_number: "validateCondition (JNum n) = Inl TypeError"
  by (simp add: validateCondition_def normalizeCondition_def)

lemma validateCondition_throws:
  "\<not> optionalString c \<Longrightarrow> validateCondition c = Inl TypeError"
  by (cases c) (simp_all add: optionalString_def validateCondition_def normalizeCondition_def)

lemma buildListing_condition_throws:
  "\<not> optionalString (getProp parsed ''condition'') \<Longrightarrow>
     \<exists>e. buildListing now parsed provider = Inl e"
  by (auto simp: buildListing_def validateCondition_throws split: sum.splits)

text \<open>
  Claim C2 says that the normalizer is total on every input. The parser hands it
  \<^verbatim>\<open>parsed.condition\<close> unchecked; for the payload \<^verbatim>\<open>{"condition": 7}\<close> that is the number
  7, and the normalizer throws a TypeError.
\<close>

theorem validateCondition_total_counterexample:
  "JSON_parse ''{\"condition\": 7}'' = Inr (JObj [(''condition'', JNum (Fin 7))]) \<and>
   getProp (JObj [(''condition'', JNum (Fin 7))]) ''condition'' = JNum (Fin 7) \<and>
   validateCondition (JNum (Fin 7)) = Inl TypeError"
proof -
  have "JSON_parse ''{\"condition\": 7}'' = Inr (JObj [(''condition'', JNum (Fin 7))])"
    by (simp add: json_ev)
  moreover have "getProp (JObj [(''condition'', JNum (Fin 7))]) ''condition'' = JNum (Fin 7)"
    by (simp add: getProp_def)
  moreover have "validateCondition (JNum (Fin 7)) = Inl TypeError"
    by (simp add: validateCondition_def normalizeCondition_def)
  ultimately show ?thesis by blast
qed

text \<open>
  Claim C2, amended. For every string \<open>text\<close> the record that the parser returns has one
  of the seven canonical values as its condition. The normalizer returns, and returns one
  of the seven, on every input that is absent (\<^verbatim>\<open>undefined\<close>, \<^verbatim>\<open>null\<close>) or a string, the
  empty string included. On every other value it throws a TypeError; where the decoded
  condition is such a value, the parser returns the fallback record, whose condition is
  \<^verbatim>\<open>good\<close>. So the invariant of the record rests on the normalizer for absent values and
  strings and on the \<^verbatim>\<open>catch\<close> block for the rest.
\<close>

theorem condition_always_canonical:
  "(\<exists>r. parseAIResponse decode now (JStr text) provider = Inr r \<and>
        condition r \<in> set validConditions) \<and>
   (optionalString c \<longrightarrow> (\<exists>v. validateCondition c = Inr v \<and> v \<in> set validConditions)) \<and>
   (\<not> optionalString c \<longrightarrow> validateCondition c = Inl TypeError) \<and>
   (jsonMatch text = Some m \<and> decode m = Inr parsed \<and>
    \<not> optionalString (getProp parsed ''condition'') \<longrightarrow>
      parseAIResponse decode now (JStr text) provider
        = Inr (degradedListing now text provider) \<and>
      condition (degradedListing now text provider) = ''good'')"
proof (intro conjI)
  obtain r where r: "parseAIResponse decode now (JStr text) provider = Inr r"
    using parse_returns by blast
  then show "\<exists>r. parseAIResponse decode now (JStr text) provider = Inr r \<and>
        condition r \<in> set validConditions"
    using parse_condition by blast
next
  show "optionalString c \<longrightarrow> (\<exists>v. validateCondition c = Inr v \<and> v \<in> set validConditions)"
  proof
    assume "optionalString c"
    then have "\<exists>v. validateCondition c = Inr v"
      by (cases c) (simp_all add: optionalString_def validateCondition_def normalizeCondition_def)
    then obtain v where "validateCondition c = Inr v" ..
    then show "\<exists>v. validateCondition c = Inr v \<and> v \<in> set validConditions"
      using validateCondition_canonical by blast
  qed
next
  show "\<not> optionalString c \<longrightarrow> validateCondition c = Inl TypeError"
    using validateCondition_throws by blast
next
  show "jsonMatch text = Some m \<and> decode m = Inr parsed \<and>
    \<not> optionalString (getProp parsed ''condition'') \<longrightarrow>
      parseAIResponse decode now (JStr text) provider
        = Inr (degradedListing now text provider) \<and>
      condition (degradedListing now text provider) = ''good''"
  proof
    assume a: "jsonMatch text = Some m \<and> decode m = Inr parsed \<and>
      \<not> optionalString (getProp parsed ''condition'')"
    then obtain e where "buildListing now parsed provider = Inl e"
      using buildListing_condition_throws by blast
    with a have "tryBlock decode now (JStr text) provider = Inl e"
      by (simp add: tryBlock_def)
    then have "parseAIResponse decode now (JStr text) provider
        = Inr (degradedListing now text provider)"
      by (simp add: parse_string_cases)
    then show "parseAIResponse decode now (JStr text) provider
        = Inr (degradedListing now text provider) \<and>
      condition (degradedListing now text provider) = ''good''"
      by (simp add: degradedListing_def)
  qed
qed

text \<open>
  A payload with a string condition, the empty string, and a payload with a boolean
  condition.
\<close>

theorem condition_always_canonical_witness:
  "(\<exists>r. parseAIResponse JSON_parse 0 (JStr ''Here you go: {\"condition\": \"Mint\"}'') ''gemini''
          = Inr r \<and> condition r = ''like-new'' \<and> condition r \<in> set validConditions) \<and>
   optionalString (JStr '''') \<and> validateCondition (JStr '''') = Inr ''good'' \<and>
   ''good'' \<in> set validConditions \<and>
   \<not> optionalString (JBool True) \<and> validateCondition (JBool True) = Inl TypeError \<and>
   jsonMatch ''{\"condition\": true}'' = Some ''{\"condition\": true}'' \<and>
   JSON_parse ''{\"condition\": true}'' = Inr (JObj [(''condition'', JBool True)]) \<and>
   parseAIResponse JSON_parse 0 (JStr ''{\"condition\": true}'') ''gemini''
     = Inr (degradedListing 0 ''{\"condition\": true}'' ''gemini'') \<and>
   condition (degradedListing 0 ''{\"condition\": true}'' ''gemini'') = ''good''"
proof -
  have d: "JSON_parse ''{\"condition\": \"Mint\"}'' = Inr (JObj [(''condition'', JStr ''Mint'')])"
    by (simp add: json_ev)
  have p: "\<exists>r. parseAIResponse JSON_parse 0 (JStr ''Here you go: {\"condition\": \"Mint\"}'')
                 ''gemini'' = Inr r \<and> condition r = ''like-new''"
    by (simp add: parse_ev d cond_ev float_ev)
  have o: "optionalString (JStr '''')"
    by (simp add: optionalString_def)
  have v: "validateCondition (JStr '''') = Inr ''good''"
    by (simp add: cond_ev)
  have n: "\<not> optionalString (JBool True)"
    by (simp add: optionalString_def)
  have m2: "jsonMatch ''{\"condition\": true}'' = Some ''{\"condition\": true}''"
    by (simp add: jsonMatch_def)
  have d2: "JSON_parse ''{\"condition\": true}'' = Inr (JObj [(''condition'', JBool True)])"
    by (simp add: json_ev)
  have g2: "\<not> optionalString (getProp (JObj [(''condition'', JBool True)]) ''condition'')"
    by (simp add: getProp_def optionalString_def)
  have w1: "(\<exists>r. parseAIResponse JSON_parse 0 (JStr ''Here you go: {\"condition\": \"Mint\"}'')
                 ''gemini'' = Inr r \<and> condition r = ''like-new'' \<and>
                 condition r \<in> set validConditions) \<and> ''good'' \<in> set validConditions"
    using p o v
      condition_always_canonical [of JSON_parse 0 "''Here you go: {\"condition\": \"Mint\"}''"
        "''gemini''" "JStr ''''"]
    by auto
  have w2: "validateCondition (JBool True) = Inl TypeError \<and>
     parseAIResponse JSON_parse 0 (JStr ''{\"condition\": true}'') ''gemini''
       = Inr (degradedListing 0 ''{\"condition\": true}'' ''gemini'') \<and>
     condition (degradedListing 0 ''{\"condition\": true}'' ''gemini'') = ''good''"
    using n m2 d2 g2
      condition_always_canonical [of JSON_parse 0 "''{\"condition\": true}''" "''gemini''"
        "JBool True" "''{\"condition\": true}''" "JObj [(''condition'', JBool True)]"]
    by blast
  show ?thesis
    using w1 w2 o v n m2 d2 by blast
qed

section \<open>The fallback record\<close>

lemma tryBlock_fails:
  "jsonMatch text = None \<or> (\<exists>m e. jsonMatch text = Some m \<and> decode m = Inl e) \<Longrightarrow>
     \<exists>e. tryBlock decode now (JStr text) provider = Inl e"
  by (auto simp: tryBlock_def)

text \<open>
  Claim C3. Where no JSON object is located in the text (\<open>jsonMatch\<close> finds none) or the
  located text does not decode, the parser returns the fallback record: the failure flag
  is set, the title is the fixed placeholder \<^verbatim>\<open>Product for Sale\<close>, the description is the
  first 1000 code units of the text, every structured field is empty or at its default,
  the confidence is 0.3, and the provider id and the time are kept. The structured fields
  are those of the data model: features, summaries, keyword sets, tags, category,
  condition, specifications, price, keywords and warnings. Beside them the record repeats
  the raw text, cut to 500 code units, under \<^verbatim>\<open>marketplaceContent.productDescription\<close>.
\<close>

theorem degraded_when_no_json:
  assumes "jsonMatch text = None \<or> (\<exists>m e. jsonMatch text = Some m \<and> decode m = Inl e)"
  shows "\<exists>r. parseAIResponse decode now (JStr text) provider = Inr r \<and>
           parseFailed r \<and>
           title r = ''Product for Sale'' \<and> title r \<noteq> [] \<and>
           description r = JStr (take 1000 text) \<and>
           keyFeatures (marketplaceContent r) = [] \<and>
           seoTitle (marketplaceContent r) = JStr [] \<and>
           productDescription (marketplaceContent r) = JStr (take 500 text) \<and>
           shortMarketplaceSummary (marketplaceContent r) = JStr [] \<and>
           longSeoDescription (marketplaceContent r) = JStr [] \<and>
           seoKeywords (marketplaceContent r) = \<lparr> primary = [], secondary = [], longTail = [] \<rparr> \<and>
           marketplaceTags (marketplaceContent r) = [] \<and>
           category r = \<lparr> main = JStr ''Other'', sub = [], tags = [] \<rparr> \<and>
           condition r = ''good'' \<and>
           conditionNotes r = JStr [] \<and>
           specifications r = JObj [] \<and>
           suggestedPrice r = \<lparr> price_min = Fin 0, price_max = Fin 0, currency = JStr ''USD'',
                                 reasoning = JStr [] \<rparr> \<and>
           searchKeywords r = [] \<and>
           warnings r = [] \<and>
           confidence r = Fin (3 / 10) \<and>
           aiProvider r = provider \<and>
           generatedAt r = now"
proof -
  obtain e where "tryBlock decode now (JStr text) provider = Inl e"
    using tryBlock_fails [OF assms] by blast
  then have "parseAIResponse decode now (JStr text) provider
               = Inr (degradedListing now text provider)"
    by (simp add: parse_string_cases)
  then show ?thesis
    by (simp add: degradedListing_def parseFailed_def)
qed

text \<open>
  Two texts: one without a brace, and one whose braces enclose no JSON.
\<close>

theorem degraded_when_no_json_witness:
  "jsonMatch ''I cannot see the product.'' = None \<and>
   (\<exists>r. parseAIResponse JSON_parse 7 (JStr ''I cannot see the product.'') ''openai'' = Inr r \<and>
        parseFailed r \<and> title r = ''Product for Sale'' \<and>
        description r = JStr ''I cannot see the product.'' \<and>
        confidence r = Fin (3 / 10) \<and> aiProvider r = ''openai'' \<and> generatedAt r = 7) \<and>
   jsonMatch ''Result: {\"title\": }'' = Some ''{\"title\": }'' \<and>
   JSON_parse ''{\"title\": }'' = Inl SyntaxError \<and>
   (\<exists>r. parseAIResponse JSON_parse 7 (JStr ''Result: {\"title\": }'') ''gemini'' = Inr r \<and>
        parseFailed r \<and> title r = ''Product for Sale'' \<and>
        description r = JStr ''Result: {\"title\": }'' \<and>
        confidence r = Fin (3 / 10) \<and> aiProvider r = ''gemini'' \<and> generatedAt r = 7)"
proof -
  have m1: "jsonMatch ''I cannot see the product.'' = None"
    by (simp add: jsonMatch_def)
  have m2: "jsonMatch ''Result: {\"title\": }'' = Some ''{\"title\": }''"
    by (simp add: jsonMatch_def)
  have d2: "JSON_parse ''{\"title\": }'' = Inl SyntaxError"
    by (simp add: json_ev)
  have h2: "jsonMatch ''Result: {\"title\": }'' = None \<or>
      (\<exists>m e. jsonMatch ''Result: {\"title\": }'' = Some m \<and> JSON_parse m = Inl e)"
    using m2 d2 by blast
  have w1: "\<exists>r. parseAIResponse JSON_parse 7 (JStr ''I cannot see the product.'') ''openai'' = Inr r \<and>
        parseFailed r \<and> title r = ''Product for Sale'' \<and>
        description r = JStr ''I cannot see the product.'' \<and>
        confidence r = Fin (3 / 10) \<and> aiProvider r = ''openai'' \<and> generatedAt r = 7"
    using m1 degraded_when_no_json [of "''I cannot see the product.''" JSON_parse 7 "''openai''"]
    by auto
  have w2: "\<exists>r. parseAIResponse JSON_parse 7 (JStr ''Result: {\"title\": }'') ''gemini'' = Inr r \<and>
        parseFailed r \<and> title r = ''Product for Sale'' \<and>
        description r = JStr ''Result: {\"title\": }'' \<and>
        confidence r = Fin (3 / 10) \<and> aiProvider r = ''gemini'' \<and> generatedAt r = 7"
    using degraded_when_no_json [OF h2, of 7 "''gemini''"]
    by auto
  show ?thesis
    using m1 m2 d2 w1 w2 by blast
qed

section \<open>The test vectors of the normalizer\<close>

lemma includesStr_mem: "includesStr s key \<Longrightarrow> set key \<subseteq> set s"
proof (induction s key rule: includesStr.induct)
  case (1 key)
  then show ?case by simp
next
  case (2 c cs key)
  have sw: "\<And>a b. startsWith a b \<Longrightarrow> set b \<subseteq> set a"
  proof -
    fix a b show "startsWith a b \<Longrightarrow> set b \<subseteq> set a"
      by (induction a b rule: startsWith.induct) auto
  qed
  from 2 show ?case using sw [of "c # cs" key] by auto
qed

lemma space_key_unreachable:
  "CHR '' '' \<in> set key \<Longrightarrow> \<not> includesStr (stripNonCondition s) key"
proof
  assume k: "CHR '' '' \<in> set key" and "includesStr (stripNonCondition s) key"
  then have "CHR '' '' \<in> set (stripNonCondition s)"
    using includesStr_mem by blast
  then show False by (simp add: stripNonCondition_def)
qed

text \<open>
  Claim C4. The test vectors of the normalizer, evaluated on the code. The second and the
  third hold. The first does not: \<^verbatim>\<open>Brand New, sealed\<close> is lowered and stripped to
  \<^verbatim>\<open>brandnewsealed\<close>, which is no canonical value and contains no key of the table, so
  the default \<^verbatim>\<open>good\<close> comes back and not \<^verbatim>\<open>new\<close>. The stripping removes every space
  before the table is searched, so its keys \<^verbatim>\<open>brand new\<close> and \<^verbatim>\<open>very good\<close> match no
  input at all.
\<close>

theorem validateCondition_vectors:
  "validateCondition (JStr ''Brand New, sealed'') = Inr ''good'' \<and>
   validateCondition (JStr ''kinda broken'') = Inr ''for-parts'' \<and>
   validateCondition (JStr '''') = Inr ''good'' \<and>
   \<not> includesStr (stripNonCondition (toLowerCase s)) ''brand new'' \<and>
   \<not> includesStr (stripNonCondition (toLowerCase s)) ''very good''"
proof -
  have "validateCondition (JStr ''Brand New, sealed'') = Inr ''good''"
    by (simp add: cond_ev)
  moreover have "validateCondition (JStr ''kinda broken'') = Inr ''for-parts''"
    by (simp add: cond_ev)
  moreover have "validateCondition (JStr '''') = Inr ''good''"
    by (simp add: cond_ev)
  moreover have "\<not> includesStr (stripNonCondition (toLowerCase s)) ''brand new''"
    by (rule space_key_unreachable) simp
  moreover have "\<not> includesStr (stripNonCondition (toLowerCase s)) ''very good''"
    by (rule space_key_unreachable) simp
  ultimately show ?thesis by blast
qed

section \<open>The rejected request\<close>

text \<open>
  Claim C5. With an empty image list and no model number the \<^verbatim>\<open>try\<close> block throws the
  400 error \<^verbatim>\<open>Either images or model number is required\<close> before any call to the
  outside; the \<^verbatim>\<open>catch\<close> of the same method replaces it, and the caller receives the
  500 error \<^verbatim>\<open>Failed to analyze product images\<close>. No call was made.
\<close>

theorem analyzeProductImages_rejects_as_500:
  "analyzeTry this (Some []) None additionalInfo
     = (Inl (AppError ''Either images or model number is required'' 400), []) \<and>
   analyzeProductImages this (Some []) None additionalInfo
     = (Inl (AppError ''Failed to analyze product images'' 500), [])"
  by (simp add: analyzeProductImages_def analyzeTry_def noImages_def strTruthy_def)

lemma analyzeProductImages_errors:
  "fst (analyzeProductImages this images modelNumber additionalInfo) = Inl e \<Longrightarrow>
     e = AppError ''Failed to analyze product images'' 500"
  by (auto simp: analyzeProductImages_def split: prod.splits sum.splits)

section \<open>The prompt\<close>

text \<open>
  Claim C7. The prompt is a function of the two arguments alone: two calls with the same
  model number and the same additional information give the same text, whatever the
  state of the service object they are made on. (The method has no argument for the
  presence of images, and the text does not depend on it.)
\<close>

theorem buildPrompt_deterministic:
  "buildPrompt this1 modelNumber additionalInfo = buildPrompt this2 modelNumber additionalInfo"
  by (simp add: buildPrompt_def)

text \<open>
  Two service objects that differ in every field, and the prompt for the same arguments.
\<close>

theorem buildPrompt_deterministic_witness:
  "buildPrompt
     \<lparr> preferredProvider = ''gemini'', geminiModel = None, openai = None,
       fetch = (\<lambda>u. Inl (Error ''offline'')), base64 = id, jsonParse = JSON_parse,
       clock = 0 \<rparr>
     (Some ''WH-1000XM4'') (Some ''boxed'')
   = buildPrompt
     \<lparr> preferredProvider = ''openai'', geminiModel = Some (\<lambda>p ps. Inr (JStr p)),
       openai = Some (\<lambda>s p us. Inr JNull), fetch = (\<lambda>u. Inr (u, None)), base64 = rev,
       jsonParse = (\<lambda>s. Inl SyntaxError), clock = 1 \<rparr>
     (Some ''WH-1000XM4'') (Some ''boxed'')"
  using buildPrompt_deterministic [of _ "Some ''WH-1000XM4''" "Some ''boxed''"]
  by blast

section \<open>Numeric coercion of the price\<close>






section \<open>The confidence\<close>

lemma buildListing_confidence:
  assumes "buildListing now parsed provider = Inr r"
  shows "confidence r = numOr (parseFloatOf (getProp parsed ''confidence'')) (Fin (1 / 2))"
  using assms
  by (auto simp: buildListing_def parseFloat_def split: if_splits sum.splits)

lemma numOr_half_nonzero: "numOr n (Fin (1 / 2)) \<noteq> Fin 0" and "numOr n (Fin (1 / 2)) \<noteq> NaN"
  by (simp_all add: numOr_def)

text \<open>
  Claim C9 says that the confidence always lies between 0 and 1. The code has no clamp:
  for the payload \<^verbatim>\<open>{"confidence": 5}\<close> the structured path completes and the
  confidence of the record is 5.
\<close>

theorem confidence_not_clamped_counterexample:
  "JSON_parse ''{\"confidence\": 5}'' = Inr (JObj [(''confidence'', JNum (Fin 5))]) \<and>
   map_sum id confidence (parseAIResponse JSON_parse 0 (JStr ''{\"confidence\": 5}'') ''gemini'')
     = Inr (Fin 5) \<and>
   map_sum id parseFailed (parseAIResponse JSON_parse 0 (JStr ''{\"confidence\": 5}'') ''gemini'')
     = Inr False \<and>
   \<not> inUnitInterval (Fin 5)"
proof -
  have d: "JSON_parse ''{\"confidence\": 5}'' = Inr (JObj [(''confidence'', JNum (Fin 5))])"
    by (simp add: json_ev)
  show ?thesis
    by (simp add: d parse_ev cond_ev float_ev parseFailed_def inUnitInterval_def)
qed

text \<open>
  Claim C9, amended. The confidence of the fallback record is 0.3. On the structured path
  it is \<^verbatim>\<open>parseFloat\<close> of the decoded \<^verbatim>\<open>confidence\<close> as it is, and 0.5 where that is
  \<open>NaN\<close> or zero; so it lies between 0 and 1 whenever the value read from the provider
  does.
\<close>

theorem confidence_rule:
  assumes "parseAIResponse decode now (JStr text) provider = Inr r"
  shows "(parseFailed r \<longrightarrow> confidence r = Fin (3 / 10)) \<and>
         (\<not> parseFailed r \<longrightarrow>
            (\<exists>m parsed. jsonMatch text = Some m \<and> decode m = Inr parsed \<and>
               confidence r = (let n = parseFloatOf (getProp parsed ''confidence'')
                               in if n = NaN \<or> n = Fin 0 then Fin (1 / 2) else n) \<and>
               (inUnitInterval (parseFloatOf (getProp parsed ''confidence'')) \<longrightarrow>
                  inUnitInterval (confidence r))))"
proof (intro conjI impI)
  assume "parseFailed r"
  then have "r = degradedListing now text provider"
    using assms by (auto simp: parse_string_cases parseFailed_def split: sum.splits
        dest: tryBlock_error)
  then show "confidence r = Fin (3 / 10)"
    by (simp add: degradedListing_def)
next
  assume "\<not> parseFailed r"
  then have "tryBlock decode now (JStr text) provider = Inr r"
    using parse_not_failed [OF assms] by simp
  then obtain m parsed where m: "jsonMatch text = Some m" and d: "decode m = Inr parsed"
    and b: "buildListing now parsed provider = Inr r"
    using tryBlock_Inr by blast
  have c: "confidence r = numOr (parseFloatOf (getProp parsed ''confidence'')) (Fin (1 / 2))"
    using buildListing_confidence [OF b] .
  have "inUnitInterval (parseFloatOf (getProp parsed ''confidence'')) \<longrightarrow>
          inUnitInterval (confidence r)"
    by (auto simp: c numOr_def inUnitInterval_def split: jsnum.splits)
  with m d c show "\<exists>m parsed. jsonMatch text = Some m \<and> decode m = Inr parsed \<and>
               confidence r = (let n = parseFloatOf (getProp parsed ''confidence'')
                               in if n = NaN \<or> n = Fin 0 then Fin (1 / 2) else n) \<and>
               (inUnitInterval (parseFloatOf (getProp parsed ''confidence'')) \<longrightarrow>
                  inUnitInterval (confidence r))"
    by (auto simp: numOr_def Let_def)
qed

theorem confidence_rule_witness:
  "\<exists>r. parseAIResponse JSON_parse 0 (JStr ''{\"confidence\": 0.95}'') ''gemini'' = Inr r \<and>
       \<not> parseFailed r \<and> confidence r = Fin (19 / 20) \<and> inUnitInterval (confidence r)"
proof -
  let ?T = "''{\"confidence\": 0.95}''"
  have d: "JSON_parse ?T = Inr (JObj [(''confidence'', JNum (Fin (19 / 20)))])"
    by (simp add: json_ev)
  have "\<exists>r. parseAIResponse JSON_parse 0 (JStr ?T) ''gemini'' = Inr r \<and> \<not> parseFailed r"
    by (simp add: parse_ev d cond_ev float_ev parseFailed_def)
  then obtain r where r: "parseAIResponse JSON_parse 0 (JStr ?T) ''gemini'' = Inr r"
    and nf: "\<not> parseFailed r" by blast
  have m: "jsonMatch ?T = Some ?T"
    by (simp add: jsonMatch_def)
  from confidence_rule [OF r] nf m d
  have "confidence r = Fin (19 / 20)"
    by (auto simp: getProp_def Let_def)
  then show ?thesis
    using r nf by (auto simp: inUnitInterval_def)
qed

text \<open>
  Claim C10 says that a decoded confidence of 0 always comes back as 0.5. The payload
  \<^verbatim>\<open>{"confidence": 0, "condition": 7}\<close> decodes, its confidence is the number 0, and the
  parser returns the confidence 0.3: the condition makes the normalizer throw, and the
  fallback record comes back.
\<close>

theorem confidence_zero_counterexample:
  "JSON_parse ''{\"confidence\": 0, \"condition\": 7}''
     = Inr (JObj [(''confidence'', JNum (Fin 0)), (''condition'', JNum (Fin 7))]) \<and>
   getProp (JObj [(''confidence'', JNum (Fin 0)), (''condition'', JNum (Fin 7))]) ''confidence''
     = JNum (Fin 0) \<and>
   map_sum id confidence
     (parseAIResponse JSON_parse 0 (JStr ''{\"confidence\": 0, \"condition\": 7}'') ''gemini'')
     = Inr (Fin (3 / 10)) \<and>
   Fin (3 / 10) \<noteq> Fin (1 / 2)"
proof -
  have d: "JSON_parse ''{\"confidence\": 0, \"condition\": 7}''
     = Inr (JObj [(''confidence'', JNum (Fin 0)), (''condition'', JNum (Fin 7))])"
    by (simp add: json_ev)
  have m: "jsonMatch ''{\"confidence\": 0, \"condition\": 7}''
     = Some ''{\"confidence\": 0, \"condition\": 7}''"
    by (simp add: jsonMatch_def)
  show ?thesis
    by (simp add: d m parseAIResponse_def tryBlock_def catchBlock_def buildListing_def
        substringOpt_def getProp_def nullish_def validateCondition_def normalizeCondition_def
        degradedListing_def)
qed

text \<open>
  Claim C10, amended. Where the embedded JSON decodes and its confidence is the number 0,
  the parser returns the confidence 0.5 if the structured path completes, and the fallback
  record with the confidence 0.3 if another field makes it throw; the record is flagged
  exactly in the second case. Either way the confidence returned is not 0, and no record
  that the parser returns for any text has the confidence 0.
\<close>

theorem confidence_zero_defaults:
  assumes "parseAIResponse decode now (JStr text) provider = Inr r"
    and "jsonMatch text = Some m" and "decode m = Inr parsed"
    and "getProp parsed ''confidence'' = JNum (Fin 0)"
  shows "(\<not> parseFailed r \<longrightarrow> confidence r = Fin (1 / 2)) \<and>
         (parseFailed r \<longrightarrow> r = degradedListing now text provider \<and>
                              confidence r = Fin (3 / 10)) \<and>
         (parseFailed r \<longleftrightarrow> (\<exists>e. buildListing now parsed provider = Inl e)) \<and>
         confidence r \<noteq> Fin 0 \<and>
         (\<forall>text' r'. parseAIResponse decode now (JStr text') provider = Inr r' \<longrightarrow>
            confidence r' \<noteq> Fin 0)"
proof -
  have t: "tryBlock decode now (JStr text) provider = buildListing now parsed provider"
    using assms(2,3) by (simp add: tryBlock_def)
  have all: "\<forall>text' r'. parseAIResponse decode now (JStr text') provider = Inr r' \<longrightarrow>
            confidence r' \<noteq> Fin 0"
  proof (intro allI impI)
    fix text' r'
    assume p: "parseAIResponse decode now (JStr text') provider = Inr r'"
    show "confidence r' \<noteq> Fin 0"
    proof (cases "tryBlock decode now (JStr text') provider")
      case (Inl e)
      with p have "r' = degradedListing now text' provider" by (simp add: parse_string_cases)
      then show ?thesis by (simp add: degradedListing_def)
    next
      case (Inr r'')
      with p have "r' = r''" by (simp add: parse_string_cases)
      with tryBlock_Inr [OF Inr] obtain parsed' where
        "buildListing now parsed' provider = Inr r'" by blast
      then show ?thesis
        using buildListing_confidence numOr_half_nonzero(1) by metis
    qed
  qed
  show ?thesis
  proof (cases "buildListing now parsed provider")
    case (Inl e)
    then have r: "r = degradedListing now text provider"
      using assms(1) t by (simp add: parse_string_cases)
    then have "parseFailed r" "confidence r = Fin (3 / 10)"
      by (simp_all add: parseFailed_def degradedListing_def)
    then show ?thesis
      using Inl r all assms(1) by auto
  next
    case (Inr r')
    then have r: "r = r'"
      using assms(1) t by (simp add: parse_string_cases)
    then have b: "buildListing now parsed provider = Inr r"
      using Inr by simp
    have nf: "\<not> parseFailed r"
      using buildListing_error [OF b] by (simp add: parseFailed_def)
    have "confidence r = Fin (1 / 2)"
      using buildListing_confidence [OF b] assms(4) by (simp add: numOr_def)
    then show ?thesis
      using nf b all by auto
  qed
qed

text \<open>
  One payload on which the structured path completes, and one on which the condition
  makes it throw.
\<close>

theorem confidence_zero_defaults_witness:
  "(\<exists>r. parseAIResponse JSON_parse 0 (JStr ''{\"confidence\": 0}'') ''gemini'' = Inr r \<and>
       \<not> parseFailed r \<and> confidence r = Fin (1 / 2) \<and> confidence r \<noteq> Fin 0) \<and>
   (\<exists>r. parseAIResponse JSON_parse 0 (JStr ''{\"confidence\": 0, \"condition\": false}'')
          ''gemini'' = Inr r \<and>
       parseFailed r \<and> confidence r = Fin (3 / 10) \<and> confidence r \<noteq> Fin 0)"
proof -
  let ?T = "''{\"confidence\": 0}''"
  let ?P = "JObj [(''confidence'', JNum (Fin 0))]"
  have m: "jsonMatch ?T = Some ?T"
    by (simp add: jsonMatch_def)
  have d: "JSON_parse ?T = Inr ?P"
    by (simp add: json_ev)
  have c: "getProp ?P ''confidence'' = JNum (Fin 0)"
    by (simp add: getProp_def)
  have "\<exists>r. parseAIResponse JSON_parse 0 (JStr ?T) ''gemini'' = Inr r \<and> \<not> parseFailed r"
    by (simp add: parse_ev d cond_ev float_ev parseFailed_def)
  then obtain r where r: "parseAIResponse JSON_parse 0 (JStr ?T) ''gemini'' = Inr r"
    and nf: "\<not> parseFailed r" by blast
  have w1: "\<exists>r. parseAIResponse JSON_parse 0 (JStr ?T) ''gemini'' = Inr r \<and>
       \<not> parseFailed r \<and> confidence r = Fin (1 / 2) \<and> confidence r \<noteq> Fin 0"
    using confidence_zero_defaults [OF r m d c] r nf by auto
  let ?T2 = "''{\"confidence\": 0, \"condition\": false}''"
  let ?P2 = "JObj [(''confidence'', JNum (Fin 0)), (''condition'', JBool False)]"
  have m2: "jsonMatch ?T2 = Some ?T2"
    by (simp add: jsonMatch_def)
  have d2: "JSON_parse ?T2 = Inr ?P2"
    by (simp add: json_ev)
  have c2: "getProp ?P2 ''confidence'' = JNum (Fin 0)"
    by (simp add: getProp_def)
  have "\<exists>r. parseAIResponse JSON_parse 0 (JStr ?T2) ''gemini'' = Inr r \<and> parseFailed r"
    by (simp add: m2 d2 parseAIResponse_def tryBlock_def catchBlock_def buildListing_def
        substringOpt_def getProp_def nullish_def validateCondition_def normalizeCondition_def
        degradedListing_def parseFailed_def)
  then obtain r2 where r2: "parseAIResponse JSON_parse 0 (JStr ?T2) ''gemini'' = Inr r2"
    and f2: "parseFailed r2" by blast
  have w2: "\<exists>r. parseAIResponse JSON_parse 0 (JStr ?T2) ''gemini'' = Inr r \<and>
       parseFailed r \<and> confidence r = Fin (3 / 10) \<and> confidence r \<noteq> Fin 0"
    using confidence_zero_defaults [OF r2 m2 d2 c2] r2 f2 by auto
  show ?thesis
    using w1 w2 by blast
qed

section \<open>What the structured path copies and what it derives\<close>

lemma orElse_truthy: "truthy a \<Longrightarrow> orElse a b = a"
  by (simp add: orElse_def)

lemma buildListing_copied:
  assumes "buildListing now parsed provider = Inr r"
  shows "description r = orElse (getProp parsed ''productDescription'') (JStr [])"
    and "marketplaceContent r = buildMarketplaceContent parsed"
    and "conditionNotes r = orElse (getProp parsed ''conditionNotes'') (JStr [])"
    and "specifications r = buildSpecifications parsed"
    and "warnings r = arrayOrEmpty (getProp parsed ''warnings'')"
    and "currency (suggestedPrice r)
           = orElse (optProp (getProp parsed ''suggestedPrice'') ''currency'') (JStr ''USD'')"
    and "reasoning (suggestedPrice r)
           = orElse (optProp (getProp parsed ''suggestedPrice'') ''reasoning'') (JStr [])"
    and "tags (category r) = take 10 (arrayOrEmpty (getProp parsed ''marketplaceTags''))"
    and "searchKeywords r
           = arrayOrEmpty (optProp (getProp parsed ''seoKeywords'') ''primary'') @
             arrayOrEmpty (optProp (getProp parsed ''seoKeywords'') ''secondary'')"
  using assms
  by (auto simp: buildListing_def split: if_splits sum.splits)

lemma buildListing_title:
  assumes "buildListing now parsed provider = Inr r"
    and "getProp parsed ''seoTitle'' = JStr s"
  shows "title r = (if take 200 s = [] then ''Product Listing'' else take 200 s)"
  using assms
  by (auto simp: buildListing_def substringOpt_def strOr_def split: if_splits sum.splits)

lemma validateCondition_fixpoint:
  assumes "c \<in> set validConditions"
  shows "validateCondition (JStr c) = Inr c"
proof -
  have v: "validateCondition (JStr ''new'') = Inr ''new''"
    "validateCondition (JStr ''like-new'') = Inr ''like-new''"
    "validateCondition (JStr ''excellent'') = Inr ''excellent''"
    "validateCondition (JStr ''good'') = Inr ''good''"
    "validateCondition (JStr ''fair'') = Inr ''fair''"
    "validateCondition (JStr ''poor'') = Inr ''poor''"
    "validateCondition (JStr ''for-parts'') = Inr ''for-parts''"
    by (simp_all add: cond_ev)
  from assms have "c = ''new'' \<or> c = ''like-new'' \<or> c = ''excellent'' \<or> c = ''good'' \<or>
      c = ''fair'' \<or> c = ''poor'' \<or> c = ''for-parts''"
    by (simp add: validConditions_def)
  then show ?thesis
    by (elim disjE) (simp_all only: v)
qed

lemma buildListing_condition_eq:
  assumes "buildListing now parsed provider = Inr r"
  shows "validateCondition (getProp parsed ''condition'') = Inr (condition r)"
  using assms
  by (auto simp: buildListing_def split: if_splits sum.splits)

lemma buildListing_numbers:
  assumes "buildListing now parsed provider = Inr r"
  shows "price_min (suggestedPrice r)
           = numOr (parseFloatOf (optProp (getProp parsed ''suggestedPrice'') ''min'')) (Fin 0)"
    and "price_max (suggestedPrice r)
           = numOr (parseFloatOf (optProp (getProp parsed ''suggestedPrice'') ''max'')) (Fin 0)"
    and "confidence r = numOr (parseFloatOf (getProp parsed ''confidence'')) (Fin (1 / 2))"
  using assms
  by (auto simp: buildListing_def parseFloat_def split: if_splits sum.splits)

lemma getProp_JObj:
  "getProp (JObj kvs) k = (case map_of kvs k of None \<Rightarrow> JUndefined | Some x \<Rightarrow> x)"
  by (simp add: getProp_def)

lemma buildSpecifications_copied:
  assumes "k \<in> set copiedSpecKeys"
    and "truthy (optProp (getProp parsed ''specifications'') k)"
  shows "getProp (buildSpecifications parsed) k = optProp (getProp parsed ''specifications'') k"
proof -
  from assms(1) have "k = ''brand'' \<or> k = ''model'' \<or> k = ''modelNumber'' \<or> k = ''category'' \<or>
      k = ''subCategory'' \<or> k = ''dimensions'' \<or> k = ''weight'' \<or> k = ''year'' \<or>
      k = ''color'' \<or> k = ''size'' \<or> k = ''material'' \<or> k = ''capacity'' \<or>
      k = ''condition'' \<or> k = ''powerSpecs'' \<or> k = ''connectivity'' \<or>
      k = ''compatibility'' \<or> k = ''warranty'' \<or> k = ''origin'' \<or>
      k = ''certifications'' \<or> k = ''allSpecs''"
    by (simp add: copiedSpecKeys_def)
  then show ?thesis
    using assms(2)
    by (elim disjE) (simp_all add: buildSpecifications_def Let_def getProp_JObj orElse_def)
qed

lemma buildListing_rest:
  assumes "buildListing now parsed provider = Inr r"
  shows "category r =
           \<lparr> main = orElse (optProp (getProp parsed ''specifications'') ''category'')
                      (JStr ''Other''),
             sub = [],
             tags = take 10 (arrayOrEmpty (getProp parsed ''marketplaceTags'')) \<rparr>"
    and "aiProvider r = provider"
    and "generatedAt r = now"
    and "suggestedPrice r =
           \<lparr> price_min =
               numOr (parseFloatOf (optProp (getProp parsed ''suggestedPrice'') ''min'')) (Fin 0),
             price_max =
               numOr (parseFloatOf (optProp (getProp parsed ''suggestedPrice'') ''max'')) (Fin 0),
             currency = orElse (optProp (getProp parsed ''suggestedPrice'') ''currency'')
                          (JStr ''USD''),
             reasoning = orElse (optProp (getProp parsed ''suggestedPrice'') ''reasoning'')
                           (JStr []) \<rparr>"
  using assms
  by (auto simp: buildListing_def parseFloat_def split: if_splits sum.splits)

lemma buildListing_title_rule:
  assumes "buildListing now parsed provider = Inr r"
  shows "title r = (case getProp parsed ''seoTitle'' of
                      JStr s \<Rightarrow> if s = [] then ''Product Listing'' else take 200 s
                    | _ \<Rightarrow> ''Product Listing'')"
  using assms
  by (auto simp: buildListing_def substringOpt_def strOr_def
      split: if_splits sum.splits jsval.splits)

lemma buildSpecifications_entry:
  assumes "k \<in> set copiedSpecKeys"
  shows "getProp (buildSpecifications parsed) k =
           (if truthy (optProp (getProp parsed ''specifications'') k)
            then optProp (getProp parsed ''specifications'') k
            else specDefault (getProp parsed ''specifications'') k)"
proof -
  from assms have "k = ''brand'' \<or> k = ''model'' \<or> k = ''modelNumber'' \<or> k = ''category'' \<or>
      k = ''subCategory'' \<or> k = ''dimensions'' \<or> k = ''weight'' \<or> k = ''year'' \<or>
      k = ''color'' \<or> k = ''size'' \<or> k = ''material'' \<or> k = ''capacity'' \<or>
      k = ''condition'' \<or> k = ''powerSpecs'' \<or> k = ''connectivity'' \<or>
      k = ''compatibility'' \<or> k = ''warranty'' \<or> k = ''origin'' \<or>
      k = ''certifications'' \<or> k = ''allSpecs''"
    by (simp add: copiedSpecKeys_def)
  then show ?thesis
    by (elim disjE)
      (simp_all add: buildSpecifications_def Let_def getProp_JObj orElse_def specDefault_def)
qed

lemma buildSpecifications_features:
  "getProp (buildSpecifications parsed) ''features''
     = JArr (arrayOrEmpty (getProp parsed ''keyFeatures''))"
  by (simp add: buildSpecifications_def Let_def getProp_JObj)

text \<open>
  Claim C6 says that every field comes back equal to its decoded value. For the payload
  below the structured path completes, and the title is \<^verbatim>\<open>Product Listing\<close> where the
  decoded \<^verbatim>\<open>seoTitle\<close> is empty, the condition is \<^verbatim>\<open>like-new\<close> where the decoded one
  is \<^verbatim>\<open>Mint\<close>, and the minimum price is the number 199.99 where the decoded one is the
  string \<^verbatim>\<open>199.99abc\<close>.
\<close>

theorem fields_recovered_counterexample:
  "JSON_parse ''{\"seoTitle\": \"\", \"condition\": \"Mint\", \"suggestedPrice\": {\"min\": \"199.99abc\"}}''
     = Inr (JObj [(''seoTitle'', JStr ''''), (''condition'', JStr ''Mint''),
                  (''suggestedPrice'', JObj [(''min'', JStr ''199.99abc'')])]) \<and>
   map_sum id parseFailed (parseAIResponse JSON_parse 0
     (JStr ''{\"seoTitle\": \"\", \"condition\": \"Mint\", \"suggestedPrice\": {\"min\": \"199.99abc\"}}'')
     ''gemini'') = Inr False \<and>
   map_sum id title (parseAIResponse JSON_parse 0
     (JStr ''{\"seoTitle\": \"\", \"condition\": \"Mint\", \"suggestedPrice\": {\"min\": \"199.99abc\"}}'')
     ''gemini'') = Inr ''Product Listing'' \<and>
   map_sum id condition (parseAIResponse JSON_parse 0
     (JStr ''{\"seoTitle\": \"\", \"condition\": \"Mint\", \"suggestedPrice\": {\"min\": \"199.99abc\"}}'')
     ''gemini'') = Inr ''like-new'' \<and>
   map_sum id (price_min \<circ> suggestedPrice) (parseAIResponse JSON_parse 0
     (JStr ''{\"seoTitle\": \"\", \"condition\": \"Mint\", \"suggestedPrice\": {\"min\": \"199.99abc\"}}'')
     ''gemini'') = Inr (Fin (19999 / 100))"
proof -
  let ?T = "''{\"seoTitle\": \"\", \"condition\": \"Mint\", \"suggestedPrice\": {\"min\": \"199.99abc\"}}''"
  have d: "JSON_parse ?T
     = Inr (JObj [(''seoTitle'', JStr ''''), (''condition'', JStr ''Mint''),
                  (''suggestedPrice'', JObj [(''min'', JStr ''199.99abc'')])])"
    by (simp add: json_ev)
  have m: "jsonMatch ?T = Some ?T"
    by (simp add: jsonMatch_def)
  show ?thesis
    by (simp add: d m parseAIResponse_def tryBlock_def buildListing_def substringOpt_def
        strOr_def getProp_def optProp_def nullish_def orElse_def arrayOrEmpty_def
        cond_ev float_ev parseFailed_def)
qed

text \<open>
  Claim C6, amended. On the structured path every field of the record is determined by
  the decoded JSON, field by field:
  \<^item> copied unchanged where the decoded value is truthy, and the default otherwise: the
    description (from \<^verbatim>\<open>productDescription\<close>), the condition notes, the four texts of
    \<^verbatim>\<open>marketplaceContent\<close> (default: the empty string), the currency (default
    \<^verbatim>\<open>USD\<close>), the reasoning, \<^verbatim>\<open>category.main\<close> (from \<^verbatim>\<open>specifications.category\<close>,
    default \<^verbatim>\<open>Other\<close>), and the twenty entries of \<^verbatim>\<open>specifications\<close> (default: the
    empty string, \<^verbatim>\<open>null\<close> for the year, the empty object for \<^verbatim>\<open>allSpecs\<close>, the
    capacity for the size);
  \<^item> copied unchanged where the decoded value is an array, and empty otherwise: the key
    features (also stored as \<^verbatim>\<open>specifications.features\<close>), the marketplace tags, the
    warnings and the three keyword lists;
  \<^item> derived: the title is the first 200 code units of \<^verbatim>\<open>seoTitle\<close>, and the placeholder
    \<^verbatim>\<open>Product Listing\<close> where that is absent or empty; the condition is the normalizer's
    value; the two prices are \<^verbatim>\<open>parseFloat\<close> of the decoded value, and 0 where that is
    \<open>NaN\<close>; the confidence is \<^verbatim>\<open>parseFloat\<close> of the decoded value, and 0.5 where that is
    \<open>NaN\<close> or 0; \<^verbatim>\<open>category.sub\<close> is empty; \<^verbatim>\<open>category.tags\<close> is the first ten
    marketplace tags; \<^verbatim>\<open>searchKeywords\<close> is the primary keywords followed by the
    secondary ones; the provider id and the time are those of the call.
  So a derived field equals the decoded value when that value is already in the form the
  code produces: a title of 1 to 200 code units, a canonical condition, a price that is a
  number, a confidence that is a number other than 0. The first group of conjuncts states
  these equalities, the second the rule of each field.
\<close>

theorem fields_recovered:
  assumes "parseAIResponse decode now (JStr text) provider = Inr r" and "\<not> parseFailed r"
    and "jsonMatch text = Some m" and "decode m = Inr parsed"
  shows "(truthy (getProp parsed ''productDescription'') \<longrightarrow>
            description r = getProp parsed ''productDescription'') \<and>
         (truthy (getProp parsed ''conditionNotes'') \<longrightarrow>
            conditionNotes r = getProp parsed ''conditionNotes'') \<and>
         (truthy (getProp parsed ''shortMarketplaceSummary'') \<longrightarrow>
            shortMarketplaceSummary (marketplaceContent r)
              = getProp parsed ''shortMarketplaceSummary'') \<and>
         (truthy (getProp parsed ''longSeoDescription'') \<longrightarrow>
            longSeoDescription (marketplaceContent r) = getProp parsed ''longSeoDescription'') \<and>
         (truthy (optProp (getProp parsed ''suggestedPrice'') ''currency'') \<longrightarrow>
            currency (suggestedPrice r) = optProp (getProp parsed ''suggestedPrice'') ''currency'') \<and>
         (truthy (optProp (getProp parsed ''suggestedPrice'') ''reasoning'') \<longrightarrow>
            reasoning (suggestedPrice r)
              = optProp (getProp parsed ''suggestedPrice'') ''reasoning'') \<and>
         (\<forall>k \<in> set copiedSpecKeys.
            truthy (optProp (getProp parsed ''specifications'') k) \<longrightarrow>
              getProp (specifications r) k = optProp (getProp parsed ''specifications'') k) \<and>
         (isArray (getProp parsed ''keyFeatures'') \<longrightarrow>
            JArr (keyFeatures (marketplaceContent r)) = getProp parsed ''keyFeatures'') \<and>
         (isArray (getProp parsed ''marketplaceTags'') \<longrightarrow>
            JArr (marketplaceTags (marketplaceContent r)) = getProp parsed ''marketplaceTags'') \<and>
         (isArray (getProp parsed ''warnings'') \<longrightarrow>
            JArr (warnings r) = getProp parsed ''warnings'') \<and>
         (isArray (optProp (getProp parsed ''seoKeywords'') ''primary'') \<longrightarrow>
            JArr (primary (seoKeywords (marketplaceContent r)))
              = optProp (getProp parsed ''seoKeywords'') ''primary'') \<and>
         (isArray (optProp (getProp parsed ''seoKeywords'') ''secondary'') \<longrightarrow>
            JArr (secondary (seoKeywords (marketplaceContent r)))
              = optProp (getProp parsed ''seoKeywords'') ''secondary'') \<and>
         (isArray (optProp (getProp parsed ''seoKeywords'') ''longTail'') \<longrightarrow>
            JArr (longTail (seoKeywords (marketplaceContent r)))
              = optProp (getProp parsed ''seoKeywords'') ''longTail'') \<and>
         (\<forall>s. getProp parsed ''seoTitle'' = JStr s \<longrightarrow>
            title r = (if s = [] then ''Product Listing'' else take 200 s)) \<and>
         (\<forall>s. getProp parsed ''seoTitle'' = JStr s \<and> s \<noteq> [] \<and> length s \<le> 200 \<longrightarrow>
            title r = s) \<and>
         validateCondition (getProp parsed ''condition'') = Inr (condition r) \<and>
         (\<forall>c. getProp parsed ''condition'' = JStr c \<and> c \<in> set validConditions \<longrightarrow>
            condition r = c) \<and>
         (\<forall>n. optProp (getProp parsed ''suggestedPrice'') ''min'' = JNum n \<and> n \<noteq> NaN \<longrightarrow>
            price_min (suggestedPrice r) = n) \<and>
         (\<forall>n. optProp (getProp parsed ''suggestedPrice'') ''max'' = JNum n \<and> n \<noteq> NaN \<longrightarrow>
            price_max (suggestedPrice r) = n) \<and>
         (\<forall>n. getProp parsed ''confidence'' = JNum n \<and> n \<noteq> NaN \<and> n \<noteq> Fin 0 \<longrightarrow>
            confidence r = n) \<and>
         tags (category r) = take 10 (marketplaceTags (marketplaceContent r)) \<and>
         searchKeywords r = primary (seoKeywords (marketplaceContent r)) @
                            secondary (seoKeywords (marketplaceContent r)) \<and>
         title r = (case getProp parsed ''seoTitle'' of
                      JStr s \<Rightarrow> if s = [] then ''Product Listing'' else take 200 s
                    | _ \<Rightarrow> ''Product Listing'') \<and>
         description r =
           (if truthy (getProp parsed ''productDescription'')
            then getProp parsed ''productDescription'' else JStr []) \<and>
         marketplaceContent r =
           \<lparr> seoTitle = (if truthy (getProp parsed ''seoTitle'')
                         then getProp parsed ''seoTitle'' else JStr []),
             keyFeatures = arrayOrEmpty (getProp parsed ''keyFeatures''),
             productDescription = (if truthy (getProp parsed ''productDescription'')
                                   then getProp parsed ''productDescription'' else JStr []),
             shortMarketplaceSummary =
               (if truthy (getProp parsed ''shortMarketplaceSummary'')
                then getProp parsed ''shortMarketplaceSummary'' else JStr []),
             longSeoDescription =
               (if truthy (getProp parsed ''longSeoDescription'')
                then getProp parsed ''longSeoDescription'' else JStr []),
             seoKeywords =
               \<lparr> primary = arrayOrEmpty (optProp (getProp parsed ''seoKeywords'') ''primary''),
                 secondary = arrayOrEmpty (optProp (getProp parsed ''seoKeywords'') ''secondary''),
                 longTail = arrayOrEmpty (optProp (getProp parsed ''seoKeywords'') ''longTail'') \<rparr>,
             marketplaceTags = arrayOrEmpty (getProp parsed ''marketplaceTags'') \<rparr> \<and>
         category r =
           \<lparr> main = (if truthy (optProp (getProp parsed ''specifications'') ''category'')
                     then optProp (getProp parsed ''specifications'') ''category''
                     else JStr ''Other''),
             sub = [],
             tags = take 10 (arrayOrEmpty (getProp parsed ''marketplaceTags'')) \<rparr> \<and>
         conditionNotes r =
           (if truthy (getProp parsed ''conditionNotes'')
            then getProp parsed ''conditionNotes'' else JStr []) \<and>
         (\<forall>k \<in> set copiedSpecKeys.
            getProp (specifications r) k =
              (if truthy (optProp (getProp parsed ''specifications'') k)
               then optProp (getProp parsed ''specifications'') k
               else specDefault (getProp parsed ''specifications'') k)) \<and>
         getProp (specifications r) ''features''
           = JArr (arrayOrEmpty (getProp parsed ''keyFeatures'')) \<and>
         suggestedPrice r =
           \<lparr> price_min =
               (if parseFloatOf (optProp (getProp parsed ''suggestedPrice'') ''min'') = NaN
                then Fin 0
                else parseFloatOf (optProp (getProp parsed ''suggestedPrice'') ''min'')),
             price_max =
               (if parseFloatOf (optProp (getProp parsed ''suggestedPrice'') ''max'') = NaN
                then Fin 0
                else parseFloatOf (optProp (getProp parsed ''suggestedPrice'') ''max'')),
             currency =
               (if truthy (optProp (getProp parsed ''suggestedPrice'') ''currency'')
                then optProp (getProp parsed ''suggestedPrice'') ''currency''
                else JStr ''USD''),
             reasoning =
               (if truthy (optProp (getProp parsed ''suggestedPrice'') ''reasoning'')
                then optProp (getProp parsed ''suggestedPrice'') ''reasoning''
                else JStr []) \<rparr> \<and>
         searchKeywords r =
           arrayOrEmpty (optProp (getProp parsed ''seoKeywords'') ''primary'') @
           arrayOrEmpty (optProp (getProp parsed ''seoKeywords'') ''secondary'') \<and>
         warnings r = arrayOrEmpty (getProp parsed ''warnings'') \<and>
         confidence r =
           (if parseFloatOf (getProp parsed ''confidence'') = NaN \<or>
               parseFloatOf (getProp parsed ''confidence'') = Fin 0
            then Fin (1 / 2)
            else parseFloatOf (getProp parsed ''confidence'')) \<and>
         aiProvider r = provider \<and>
         generatedAt r = now"
proof -
  have b: "buildListing now parsed provider = Inr r"
    using parse_success [OF assms] .
  note c = buildListing_copied [OF b]
  note n = buildListing_numbers [OF b]
  have ce: "validateCondition (getProp parsed ''condition'') = Inr (condition r)"
    using buildListing_condition_eq [OF b] .
  have 1: "truthy (getProp parsed ''productDescription'') \<longrightarrow>
            description r = getProp parsed ''productDescription''"
    by (simp add: c(1) orElse_truthy)
  have 2: "truthy (getProp parsed ''conditionNotes'') \<longrightarrow>
            conditionNotes r = getProp parsed ''conditionNotes''"
    by (simp add: c(3) orElse_truthy)
  have 3: "truthy (getProp parsed ''shortMarketplaceSummary'') \<longrightarrow>
            shortMarketplaceSummary (marketplaceContent r)
              = getProp parsed ''shortMarketplaceSummary''"
    by (simp add: c(2) buildMarketplaceContent_def orElse_truthy)
  have 4: "truthy (getProp parsed ''longSeoDescription'') \<longrightarrow>
            longSeoDescription (marketplaceContent r) = getProp parsed ''longSeoDescription''"
    by (simp add: c(2) buildMarketplaceContent_def orElse_truthy)
  have 5: "truthy (optProp (getProp parsed ''suggestedPrice'') ''currency'') \<longrightarrow>
            currency (suggestedPrice r) = optProp (getProp parsed ''suggestedPrice'') ''currency''"
    by (simp add: c(6) orElse_truthy)
  have 6: "truthy (optProp (getProp parsed ''suggestedPrice'') ''reasoning'') \<longrightarrow>
            reasoning (suggestedPrice r)
              = optProp (getProp parsed ''suggestedPrice'') ''reasoning''"
    by (simp add: c(7) orElse_truthy)
  have 7: "\<forall>k \<in> set copiedSpecKeys.
            truthy (optProp (getProp parsed ''specifications'') k) \<longrightarrow>
              getProp (specifications r) k = optProp (getProp parsed ''specifications'') k"
    using buildSpecifications_copied by (simp add: c(4))
  have arr: "\<And>v. isArray v \<Longrightarrow> JArr (arrayOrEmpty v) = v"
    by (simp add: isArray_def arrayOrEmpty_def split: jsval.splits)
  have 8: "isArray (getProp parsed ''keyFeatures'') \<longrightarrow>
            JArr (keyFeatures (marketplaceContent r)) = getProp parsed ''keyFeatures''"
    by (simp add: c(2) buildMarketplaceContent_def arr)
  have 9: "isArray (getProp parsed ''marketplaceTags'') \<longrightarrow>
            JArr (marketplaceTags (marketplaceContent r)) = getProp parsed ''marketplaceTags''"
    by (simp add: c(2) buildMarketplaceContent_def arr)
  have 10: "isArray (getProp parsed ''warnings'') \<longrightarrow>
            JArr (warnings r) = getProp parsed ''warnings''"
    by (simp add: c(5) arr)
  have 11: "isArray (optProp (getProp parsed ''seoKeywords'') ''primary'') \<longrightarrow>
            JArr (primary (seoKeywords (marketplaceContent r)))
              = optProp (getProp parsed ''seoKeywords'') ''primary''"
    by (simp add: c(2) buildMarketplaceContent_def arr)
  have 12: "isArray (optProp (getProp parsed ''seoKeywords'') ''secondary'') \<longrightarrow>
            JArr (secondary (seoKeywords (marketplaceContent r)))
              = optProp (getProp parsed ''seoKeywords'') ''secondary''"
    by (simp add: c(2) buildMarketplaceContent_def arr)
  have 13: "isArray (optProp (getProp parsed ''seoKeywords'') ''longTail'') \<longrightarrow>
            JArr (longTail (seoKeywords (marketplaceContent r)))
              = optProp (getProp parsed ''seoKeywords'') ''longTail''"
    by (simp add: c(2) buildMarketplaceContent_def arr)
  have 14: "\<forall>s. getProp parsed ''seoTitle'' = JStr s \<longrightarrow>
            title r = (if s = [] then ''Product Listing'' else take 200 s)"
    using buildListing_title [OF b] by auto
  have 15: "\<forall>s. getProp parsed ''seoTitle'' = JStr s \<and> s \<noteq> [] \<and> length s \<le> 200 \<longrightarrow>
            title r = s"
    using 14 by auto
  have 16: "\<forall>c. getProp parsed ''condition'' = JStr c \<and> c \<in> set validConditions \<longrightarrow>
            condition r = c"
    using ce validateCondition_fixpoint by fastforce
  have 17: "\<forall>n. optProp (getProp parsed ''suggestedPrice'') ''min'' = JNum n \<and> n \<noteq> NaN \<longrightarrow>
            price_min (suggestedPrice r) = n"
    by (auto simp: n(1) numOr_def)
  have 18: "\<forall>n. optProp (getProp parsed ''suggestedPrice'') ''max'' = JNum n \<and> n \<noteq> NaN \<longrightarrow>
            price_max (suggestedPrice r) = n"
    by (auto simp: n(2) numOr_def)
  have 19: "\<forall>n. getProp parsed ''confidence'' = JNum n \<and> n \<noteq> NaN \<and> n \<noteq> Fin 0 \<longrightarrow>
            confidence r = n"
    by (auto simp: n(3) numOr_def)
  have 20: "tags (category r) = take 10 (marketplaceTags (marketplaceContent r))"
    by (simp add: c(8) c(2) buildMarketplaceContent_def)
  have 21: "searchKeywords r = primary (seoKeywords (marketplaceContent r)) @
                            secondary (seoKeywords (marketplaceContent r))"
    by (simp add: c(9) c(2) buildMarketplaceContent_def)
  note e = buildListing_rest [OF b]
  have g1: "title r = (case getProp parsed ''seoTitle'' of
                      JStr s \<Rightarrow> if s = [] then ''Product Listing'' else take 200 s
                    | _ \<Rightarrow> ''Product Listing'')"
    using buildListing_title_rule [OF b] .
  have g2: "description r =
           (if truthy (getProp parsed ''productDescription'')
            then getProp parsed ''productDescription'' else JStr [])"
    by (simp add: c(1) orElse_def)
  have g3: "marketplaceContent r =
           \<lparr> seoTitle = (if truthy (getProp parsed ''seoTitle'')
                         then getProp parsed ''seoTitle'' else JStr []),
             keyFeatures = arrayOrEmpty (getProp parsed ''keyFeatures''),
             productDescription = (if truthy (getProp parsed ''productDescription'')
                                   then getProp parsed ''productDescription'' else JStr []),
             shortMarketplaceSummary =
               (if truthy (getProp parsed ''shortMarketplaceSummary'')
                then getProp parsed ''shortMarketplaceSummary'' else JStr []),
             longSeoDescription =
               (if truthy (getProp parsed ''longSeoDescription'')
                then getProp parsed ''longSeoDescription'' else JStr []),
             seoKeywords =
               \<lparr> primary = arrayOrEmpty (optProp (getProp parsed ''seoKeywords'') ''primary''),
                 secondary = arrayOrEmpty (optProp (getProp parsed ''seoKeywords'') ''secondary''),
                 longTail = arrayOrEmpty (optProp (getProp parsed ''seoKeywords'') ''longTail'') \<rparr>,
             marketplaceTags = arrayOrEmpty (getProp parsed ''marketplaceTags'') \<rparr>"
    by (simp add: c(2) buildMarketplaceContent_def orElse_def)
  have g4: "category r =
           \<lparr> main = (if truthy (optProp (getProp parsed ''specifications'') ''category'')
                     then optProp (getProp parsed ''specifications'') ''category''
                     else JStr ''Other''),
             sub = [],
             tags = take 10 (arrayOrEmpty (getProp parsed ''marketplaceTags'')) \<rparr>"
    by (simp add: e(1) orElse_def)
  have g5: "conditionNotes r =
           (if truthy (getProp parsed ''conditionNotes'')
            then getProp parsed ''conditionNotes'' else JStr [])"
    by (simp add: c(3) orElse_def)
  have g6: "\<forall>k \<in> set copiedSpecKeys.
            getProp (specifications r) k =
              (if truthy (optProp (getProp parsed ''specifications'') k)
               then optProp (getProp parsed ''specifications'') k
               else specDefault (getProp parsed ''specifications'') k)"
    using buildSpecifications_entry by (simp add: c(4))
  have g7: "getProp (specifications r) ''features''
           = JArr (arrayOrEmpty (getProp parsed ''keyFeatures''))"
    using buildSpecifications_features by (simp add: c(4))
  have g8: "suggestedPrice r =
           \<lparr> price_min =
               (if parseFloatOf (optProp (getProp parsed ''suggestedPrice'') ''min'') = NaN
                then Fin 0
                else parseFloatOf (optProp (getProp parsed ''suggestedPrice'') ''min'')),
             price_max =
               (if parseFloatOf (optProp (getProp parsed ''suggestedPrice'') ''max'') = NaN
                then Fin 0
                else parseFloatOf (optProp (getProp parsed ''suggestedPrice'') ''max'')),
             currency =
               (if truthy (optProp (getProp parsed ''suggestedPrice'') ''currency'')
                then optProp (getProp parsed ''suggestedPrice'') ''currency''
                else JStr ''USD''),
             reasoning =
               (if truthy (optProp (getProp parsed ''suggestedPrice'') ''reasoning'')
                then optProp (getProp parsed ''suggestedPrice'') ''reasoning''
                else JStr []) \<rparr>"
    by (simp add: e(4) numOr_def orElse_def)
  have g9: "searchKeywords r =
           arrayOrEmpty (optProp (getProp parsed ''seoKeywords'') ''primary'') @
           arrayOrEmpty (optProp (getProp parsed ''seoKeywords'') ''secondary'')"
    using c(9) .
  have g10: "warnings r = arrayOrEmpty (getProp parsed ''warnings'')"
    using c(5) .
  have g11: "confidence r =
           (if parseFloatOf (getProp parsed ''confidence'') = NaN \<or>
               parseFloatOf (getProp parsed ''confidence'') = Fin 0
            then Fin (1 / 2)
            else parseFloatOf (getProp parsed ''confidence''))"
    by (simp add: n(3) numOr_def)
  have g12: "aiProvider r = provider" "generatedAt r = now"
    using e(2) e(3) by simp_all
  show ?thesis
    using 1 2 3 4 5 6 7 8 9 10 11 12 13 14 15 ce 16 17 18 19 20 21
      g1 g2 g3 g4 g5 g6 g7 g8 g9 g10 g11 g12
    by (intro conjI)
qed


text \<open>
  A payload in which the maximum price is a numeric string and several fields are absent.
\<close>

theorem fields_recovered_witness:
  "\<exists>r. parseAIResponse JSON_parse 0
          (JStr ''Listing: {\"seoTitle\": \"Sony WH-1000XM4\", \"keyFeatures\": [\"ANC\"], \"productDescription\": \"Great\", \"specifications\": {\"brand\": \"Sony\"}, \"seoKeywords\": {\"primary\": [\"sony\"], \"secondary\": [\"anc\"]}, \"marketplaceTags\": [\"audio\"], \"condition\": \"good\", \"suggestedPrice\": {\"min\": 120, \"max\": \"180.5\", \"currency\": \"AUD\"}, \"confidence\": 0.9}'')
          ''gemini'' = Inr r \<and>
       \<not> parseFailed r \<and>
       title r = ''Sony WH-1000XM4'' \<and>
       description r = JStr ''Great'' \<and>
       getProp (specifications r) ''brand'' = JStr ''Sony'' \<and>
       keyFeatures (marketplaceContent r) = [JStr ''ANC''] \<and>
       marketplaceTags (marketplaceContent r) = [JStr ''audio''] \<and>
       condition r = ''good'' \<and>
       price_min (suggestedPrice r) = Fin 120 \<and>
       price_max (suggestedPrice r) = Fin (361 / 2) \<and>
       currency (suggestedPrice r) = JStr ''AUD'' \<and>
       confidence r = Fin (9 / 10) \<and>
       tags (category r) = [JStr ''audio''] \<and>
       searchKeywords r = [JStr ''sony'', JStr ''anc''] \<and>
       main (category r) = JStr ''Other'' \<and>
       conditionNotes r = JStr [] \<and>
       getProp (specifications r) ''year'' = JNull \<and>
       getProp (specifications r) ''features'' = JArr [JStr ''ANC'']"
proof -
  let ?J = "''{\"seoTitle\": \"Sony WH-1000XM4\", \"keyFeatures\": [\"ANC\"], \"productDescription\": \"Great\", \"specifications\": {\"brand\": \"Sony\"}, \"seoKeywords\": {\"primary\": [\"sony\"], \"secondary\": [\"anc\"]}, \"marketplaceTags\": [\"audio\"], \"condition\": \"good\", \"suggestedPrice\": {\"min\": 120, \"max\": \"180.5\", \"currency\": \"AUD\"}, \"confidence\": 0.9}''"
  let ?T = "''Listing: '' @ ?J"
  let ?P = "JObj [(''seoTitle'', JStr ''Sony WH-1000XM4''),
                  (''keyFeatures'', JArr [JStr ''ANC'']),
                  (''productDescription'', JStr ''Great''),
                  (''specifications'', JObj [(''brand'', JStr ''Sony'')]),
                  (''seoKeywords'', JObj [(''primary'', JArr [JStr ''sony'']),
                                          (''secondary'', JArr [JStr ''anc''])]),
                  (''marketplaceTags'', JArr [JStr ''audio'']),
                  (''condition'', JStr ''good''),
                  (''suggestedPrice'', JObj [(''min'', JNum (Fin 120)),
                                             (''max'', JStr ''180.5''),
                                             (''currency'', JStr ''AUD'')]),
                  (''confidence'', JNum (Fin (9 / 10)))]"
  have m: "jsonMatch ?T = Some ?J"
    by (simp add: jsonMatch_def)
  have d: "JSON_parse ?J = Inr ?P"
    by (simp add: json_ev)
  have "\<exists>r. parseAIResponse JSON_parse 0 (JStr ?T) ''gemini'' = Inr r \<and> \<not> parseFailed r"
    using m d by (simp add: parseAIResponse_def tryBlock_def buildListing_def substringOpt_def
        getProp_JObj optProp_def nullish_def cond_ev float_ev parseFailed_def)
  then obtain r where r: "parseAIResponse JSON_parse 0 (JStr ?T) ''gemini'' = Inr r"
    and nf: "\<not> parseFailed r" by blast
  note f = fields_recovered [OF r nf m d]
  have "title r = ''Sony WH-1000XM4'' \<and>
       description r = JStr ''Great'' \<and>
       getProp (specifications r) ''brand'' = JStr ''Sony'' \<and>
       keyFeatures (marketplaceContent r) = [JStr ''ANC''] \<and>
       marketplaceTags (marketplaceContent r) = [JStr ''audio''] \<and>
       condition r = ''good'' \<and>
       price_min (suggestedPrice r) = Fin 120 \<and>
       price_max (suggestedPrice r) = Fin (361 / 2) \<and>
       currency (suggestedPrice r) = JStr ''AUD'' \<and>
       confidence r = Fin (9 / 10) \<and>
       tags (category r) = [JStr ''audio''] \<and>
       searchKeywords r = [JStr ''sony'', JStr ''anc''] \<and>
       main (category r) = JStr ''Other'' \<and>
       conditionNotes r = JStr [] \<and>
       getProp (specifications r) ''year'' = JNull \<and>
       getProp (specifications r) ''features'' = JArr [JStr ''ANC'']"
    using f
    by (simp add: getProp_JObj optProp_def nullish_def isArray_def copiedSpecKeys_def
        validConditions_def arrayOrEmpty_def float_ev specDefault_def)
  then show ?thesis
    using r nf by simp
qed

end
